theory Spec2Isabelle
  imports Main
begin

section \<open>Go library functions the bot calls\<close>

text \<open>
  Go strings are byte sequences, and so is \<open>string\<close> here. The functions of the packages
  \<open>strings\<close> and \<open>strconv\<close> that the bot calls are written out for the arguments the bot
  gives them (the separator of \<open>Split\<close> and \<open>LastIndex\<close> is always the one byte \<open>/\<close>).
\<close>

definition HasPrefix :: "string \<Rightarrow> string \<Rightarrow> bool" where
  "HasPrefix s p = (take (length p) s = p)"

definition TrimPrefix :: "string \<Rightarrow> string \<Rightarrow> string" where
  "TrimPrefix s p = (if HasPrefix s p then drop (length p) s else s)"

definition HasSuffix :: "string \<Rightarrow> string \<Rightarrow> bool" where
  "HasSuffix s p = (length p \<le> length s \<and> drop (length s - length p) s = p)"

definition TrimSuffix :: "string \<Rightarrow> string \<Rightarrow> string" where
  "TrimSuffix s p = (if HasSuffix s p then take (length s - length p) s else s)"

text \<open>
  \<open>strings.ToLower\<close>: the ASCII letters \<open>A\<close> to \<open>Z\<close> are mapped to \<open>a\<close> to \<open>z\<close>. Go also
  rewrites letters outside ASCII; no such letter becomes \<open>p\<close>, \<open>r\<close>, \<open>-\<close>, a sign or a digit,
  so the only use of the function (the test for \<open>pr-\<close> and the number behind it) does not
  see the difference. Bytes from 128 on are left as they are.
\<close>

definition lowerByte :: "char \<Rightarrow> char" where
  "lowerByte c =
     (case map_of (zip ''ABCDEFGHIJKLMNOPQRSTUVWXYZ'' ''abcdefghijklmnopqrstuvwxyz'') c of
        None \<Rightarrow> c
      | Some l \<Rightarrow> l)"

definition ToLower :: "string \<Rightarrow> string" where
  "ToLower s = map lowerByte s"

text \<open>\<open>strings.Split(s, "/")\<close>: one more piece than there are separators.\<close>

fun Split :: "string \<Rightarrow> char \<Rightarrow> string list" where
  "Split [] sep = [[]]"
| "Split (c # cs) sep =
     (if c = sep then [] # Split cs sep
      else (case Split cs sep of
              [] \<Rightarrow> [[c]]
            | w # ws \<Rightarrow> (c # w) # ws))"

text \<open>\<open>strings.LastIndex(s, "/")\<close>: the index of the last separator, or \<open>-1\<close>.\<close>

definition LastIndex :: "string \<Rightarrow> char \<Rightarrow> int" where
  "LastIndex s sep =
     (case filter (\<lambda>i. s ! i = sep) (rev [0..<length s]) of
        [] \<Rightarrow> - 1
      | i # _ \<Rightarrow> int i)"

text \<open>
  \<open>strings.Replace(s, old, new, -1)\<close> for a non-empty \<open>old\<close>: every occurrence, left to
  right, without overlap. The bot's only call has \<open>old = "gs://"\<close>; for an empty \<open>old\<close>
  (where Go inserts \<open>new\<close> around every rune) the string is returned as it is.
\<close>

function Replace :: "string \<Rightarrow> string \<Rightarrow> string \<Rightarrow> string" where
  "Replace s old new =
     (if old = [] \<or> s = [] then s
      else if HasPrefix s old then new @ Replace (drop (length old) s) old new
      else hd s # Replace (tl s) old new)"
  by pat_completeness auto
termination
  by (relation "measure (\<lambda>(s, old, new). length s)") auto

text \<open>\<open>strings.Join\<close>.\<close>

fun Join :: "string list \<Rightarrow> string \<Rightarrow> string" where
  "Join [] sep = []"
| "Join [x] sep = x"
| "Join (x # y # ys) sep = x @ sep @ Join (y # ys) sep"

subsection \<open>Errors and panics\<close>

text \<open>
  A Go function returns its values together with an \<open>error\<close> that may be \<open>nil\<close>
  (\<open>None\<close>); a nil-pointer dereference or an index out of range does not return at all.
\<close>

datatype error =
    ErrSyntax string
  | ErrRange string
  | Errorf string
  | External string
  | Wrap error string

datatype 'a outcome = Panic | Return 'a

subsection \<open>\<open>strconv.Atoi\<close> and \<open>strconv.FormatInt\<close>\<close>

definition isDigit :: "char \<Rightarrow> bool" where
  "isDigit c = (c \<in> set ''0123456789'')"

definition digitVal :: "char \<Rightarrow> int" where
  "digitVal c = of_char c - 48"

datatype scan = ScanSyntax | ScanRange | ScanValue int

text \<open>
  The loop of \<open>ParseUint\<close> in base 10 for 64 bits: it stops with a syntax error at the
  first byte that is not a digit, and with a range error as soon as the number read so
  far no longer fits 64 bits, whatever follows.
\<close>

fun ParseUint_loop :: "int \<Rightarrow> string \<Rightarrow> scan" where
  "ParseUint_loop n [] = ScanValue n"
| "ParseUint_loop n (c # cs) =
     (if \<not> isDigit c then ScanSyntax
      else if n * 10 + digitVal c \<ge> 2 ^ 64 then ScanRange
      else ParseUint_loop (n * 10 + digitVal c) cs)"

definition ParseUint :: "string \<Rightarrow> scan" where
  "ParseUint s = (if s = [] then ScanSyntax else ParseUint_loop 0 s)"

text \<open>
  \<open>Atoi\<close> with a 64-bit \<open>int\<close>: an optional sign, then digits. With an error it still
  returns a number: 0 after a syntax error, the nearest bound after a range error.
\<close>

definition Atoi :: "string \<Rightarrow> int \<times> error option" where
  "Atoi s =
     (if s = [] then (0, Some (ErrSyntax s))
      else
        let neg = (hd s = CHR ''-'');
            body = (if hd s = CHR ''+'' \<or> hd s = CHR ''-'' then tl s else s)
        in case ParseUint body of
             ScanSyntax \<Rightarrow> (0, Some (ErrSyntax s))
           | ScanRange \<Rightarrow> (if neg then - (2 ^ 63) else 2 ^ 63 - 1, Some (ErrRange s))
           | ScanValue un \<Rightarrow>
               if \<not> neg \<and> un \<ge> 2 ^ 63 then (2 ^ 63 - 1, Some (ErrRange s))
               else if neg \<and> un > 2 ^ 63 then (- (2 ^ 63), Some (ErrRange s))
               else (if neg then - un else un, None))"

text \<open>\<open>FormatInt(i, 10)\<close>: the decimal digits, behind \<open>-\<close> for a negative number.\<close>

function formatDigits :: "int \<Rightarrow> string" where
  "formatDigits n =
     (if n < 10 then [''0123456789'' ! nat n]
      else formatDigits (n div 10) @ [''0123456789'' ! nat (n mod 10)])"
  by pat_completeness auto
termination
  by (relation "measure nat") auto

definition FormatInt :: "int \<Rightarrow> string" where
  "FormatInt i = (if i < 0 then CHR ''-'' # formatDigits (- i) else formatDigits i)"

section \<open>Activity records\<close>

text \<open>
  \<open>PipelineState\<close> is a string type with six named constants; \<open>OtherState s\<close> is any other
  string.
\<close>

datatype PipelineState =
    TriggeredState | PendingState | RunningState | SuccessState | FailureState
  | AbortedState | OtherState string

text \<open>
  A stage or step; its child steps are pointers, so each may be \<open>nil\<close> (\<open>None\<close>). Where
  two structs have a field of the same name, the field of the one that is used less has
  the name of its struct in front: \<open>StepName\<close> and \<open>StepStatus\<close> here, \<open>OrgName\<close>,
  \<open>AttachmentTitle\<close>, \<open>ActionURL\<close> and the like below.
\<close>

datatype ActivityStageOrStep =
  ActivityStageOrStep (StepName: string) (StepStatus: PipelineState)
    (Steps: "ActivityStageOrStep option list")

text \<open>Times are pointers to a time, read only through \<open>Unix()\<close>: seconds, or \<open>nil\<close>.\<close>

record ActivityRecord =
  Name :: string
  Owner :: string
  Repo :: string
  Branch :: string
  BuildIdentifier :: string
  Context :: string
  Status :: PipelineState
  StartTime :: "int option"
  CompletionTime :: "int option"
  GitURL :: string
  LinkURL :: string
  LogURL :: string
  Stages :: "ActivityStageOrStep option list"

record PipelineDetails =
  GitOwner :: string
  GitRepository :: string
  BranchName :: string
  Pipeline :: string
  Build :: string
  DetailsContext :: string

text \<open>
  \<open>createPipelineDetails\<close>: the branch name is the third piece of
  \<open>owner/repo/branch\<close> split at \<open>/\<close>. That string has two separators at least, so it is
  never empty and the split has three pieces or more.
\<close>

definition createPipelineDetails :: "ActivityRecord \<Rightarrow> PipelineDetails" where
  "createPipelineDetails activity =
     (let repoOwner = Owner activity;
          repoName = Repo activity;
          buildNumber = BuildIdentifier activity;
          branchName = [];
          pipeline = Owner activity @ ''/'' @ Repo activity @ ''/'' @ Branch activity;
          (repoOwner, repoName, branchName) =
            (if pipeline \<noteq> [] then
               (case Split pipeline (CHR ''/'') of
                  p0 # p1 # p2 # _ \<Rightarrow>
                    (if repoOwner = [] then p0 else repoOwner,
                     if repoName = [] then p1 else repoName,
                     p2)
                | _ \<Rightarrow> (repoOwner, repoName, branchName))
             else (repoOwner, repoName, branchName));
          branchName = (if branchName = [] then ''master'' else branchName);
          pipeline = (if pipeline = [] \<and> (repoName \<noteq> [] \<and> repoOwner \<noteq> [])
                      then repoOwner @ ''/'' @ repoName @ ''/'' @ branchName
                      else pipeline)
      in \<lparr>GitOwner = repoOwner, GitRepository = repoName, BranchName = branchName,
          Pipeline = pipeline, Build = buildNumber,
          DetailsContext = Context activity\<rparr>)"

text \<open>
  \<open>getPullRequestNumber\<close>: the number behind \<open>pr-\<close>, as \<open>Atoi\<close> returns it (with its
  error), or 0 for any other branch.
\<close>

definition getPullRequestNumber :: "ActivityRecord \<Rightarrow> int \<times> error option" where
  "getPullRequestNumber activity =
     (let pipelineDetails = createPipelineDetails activity
      in if HasPrefix (ToLower (BranchName pipelineDetails)) ''pr-''
         then Atoi (TrimPrefix (ToLower (BranchName pipelineDetails)) ''pr-'')
         else (0, None))"


section \<open>Pull requests, statuses and rules\<close>

record GitUser =
  Login :: string

record User =
  UserName :: string
  SpecName :: string
  SpecURL :: string
  SpecEmail :: string

text \<open>
  A pull request as the provider returns it. A label is a pointer to a struct whose name
  is a pointer to a string: \<open>None\<close> is a label whose name cannot be read. \<open>IsClosed\<close>
  is the value of the provider's method of that name.
\<close>

record GitPullRequest =
  URL :: string
  Title :: string
  Author :: "GitUser option"
  RequestedReviewers :: "GitUser option list"
  Labels :: "string option list"
  Merged :: "bool option"
  UpdatedAt :: "int option"
  IsClosed :: bool

record Status =
  Emoji :: string
  Text :: string

datatype StatusKind =
    KindMerged | KindClosed | KindAborted | KindErrored | KindFailed | KindApproved
  | KindNotApproved | KindNeedsOkToTest | KindHold | KindPending | KindRunning
  | KindSucceeded | KindLGTM | KindUnknown

text \<open>
  The program holds statuses by pointer and compares the pointers. The table
  \<open>defaultStatuses\<close> holds fourteen pointers, each to a status allocated for it:
  \<open>DefaultStatus k\<close> is the address of the one for kind \<open>k\<close>. A pointer of the
  configuration is one of these or the address of another allocation,
  \<open>OverrideStatus s\<close>, with contents \<open>s\<close>. The program compares a status pointer only
  with a pointer of \<open>defaultStatuses\<close>, and there equality of these values is equality of
  the pointers.
\<close>

datatype StatusPtr = DefaultStatus StatusKind | OverrideStatus Status

record Statuses =
  Merged :: "StatusPtr option"
  Closed :: "StatusPtr option"
  Aborted :: "StatusPtr option"
  Errored :: "StatusPtr option"
  Failed :: "StatusPtr option"
  Approved :: "StatusPtr option"
  NotApproved :: "StatusPtr option"
  NeedsOkToTest :: "StatusPtr option"
  Hold :: "StatusPtr option"
  Pending :: "StatusPtr option"
  Running :: "StatusPtr option"
  Succeeded :: "StatusPtr option"
  LGTM :: "StatusPtr option"
  Unknown :: "StatusPtr option"

definition defaultStatuses :: Statuses where
  "defaultStatuses =
     \<lparr>Merged = Some (DefaultStatus KindMerged),
      Closed = Some (DefaultStatus KindClosed),
      Aborted = Some (DefaultStatus KindAborted),
      Errored = Some (DefaultStatus KindErrored),
      Failed = Some (DefaultStatus KindFailed),
      Approved = Some (DefaultStatus KindApproved),
      NotApproved = Some (DefaultStatus KindNotApproved),
      NeedsOkToTest = Some (DefaultStatus KindNeedsOkToTest),
      Hold = Some (DefaultStatus KindHold),
      Pending = Some (DefaultStatus KindPending),
      Running = Some (DefaultStatus KindRunning),
      Succeeded = Some (DefaultStatus KindSucceeded),
      LGTM = Some (DefaultStatus KindLGTM),
      Unknown = Some (DefaultStatus KindUnknown)\<rparr>"

text \<open>The statuses the pointers of \<open>defaultStatuses\<close> point to.\<close>

fun defaultStatus :: "StatusKind \<Rightarrow> Status" where
  "defaultStatus KindMerged = \<lparr>Emoji = '':purple_heart:'', Text = ''merged''\<rparr>"
| "defaultStatus KindClosed = \<lparr>Emoji = '':closed_book:'', Text = ''closed and not merged''\<rparr>"
| "defaultStatus KindAborted = \<lparr>Emoji = '':red_circle:'', Text = ''build aborted''\<rparr>"
| "defaultStatus KindErrored = \<lparr>Emoji = '':red_circle:'', Text = ''build errored''\<rparr>"
| "defaultStatus KindFailed = \<lparr>Emoji = '':red_circle:'', Text = ''build failed''\<rparr>"
| "defaultStatus KindApproved = \<lparr>Emoji = '':+1:'', Text = ''approved''\<rparr>"
| "defaultStatus KindNotApproved = \<lparr>Emoji = '':wave:'', Text = ''not approved''\<rparr>"
| "defaultStatus KindNeedsOkToTest = \<lparr>Emoji = '':wave:'', Text = ''needs /ok-to-test''\<rparr>"
| "defaultStatus KindHold = \<lparr>Emoji = '':octagonal_sign:'', Text = ''hold''\<rparr>"
| "defaultStatus KindPending = \<lparr>Emoji = '':question:'', Text = ''build pending''\<rparr>"
| "defaultStatus KindRunning = \<lparr>Emoji = '':white_circle:'', Text = ''build running''\<rparr>"
| "defaultStatus KindSucceeded = \<lparr>Emoji = '':white_check_mark:'', Text = ''build succeeded''\<rparr>"
| "defaultStatus KindLGTM = \<lparr>Emoji = '':+1:'', Text = ''lgtm''\<rparr>"
| "defaultStatus KindUnknown = \<lparr>Emoji = '':grey_question:'', Text = []\<rparr>"

text \<open>Reading through a status pointer.\<close>

fun deref :: "StatusPtr \<Rightarrow> Status" where
  "deref (DefaultStatus k) = defaultStatus k"
| "deref (OverrideStatus s) = s"

definition getStatus :: "StatusPtr option \<Rightarrow> StatusPtr option \<Rightarrow> StatusPtr option" where
  "getStatus overrideStatus defaultStatus' =
     (if overrideStatus = None then defaultStatus' else overrideStatus)"

record Org =
  OrgName :: string
  Repos :: "string list"

record SlackBotMode =
  Orgs :: "Org list"
  IgnoreLabels :: "string list"
  Channel :: string
  DirectMessage :: bool
  NotifyReviewers :: bool

record MessageReference =
  ChannelID :: string
  Timestamp :: string

section \<open>Messages and the sink\<close>

record AttachmentAction =
  ActionType :: string
  ActionText :: string
  ActionURL :: string

record AttachmentField =
  Value :: string
  Short :: bool

record Attachment =
  CallbackID :: string
  Color :: string
  AttachmentTitle :: string
  AttachmentText :: string
  Fallback :: string
  Actions :: "AttachmentAction list"
  Fields :: "AttachmentField list"
  Ts :: string
  FooterIcon :: string
  MarkdownIn :: "string list"

record SlackUser =
  ID :: string

datatype MsgOption = MsgOptionAttachments "Attachment list" | MsgOptionUpdate string

text \<open>A call made on the Slack client, with its arguments.\<close>

datatype SinkCall =
    CallOpenConversation string
  | CallSendMessageContext string "MsgOption list"

section \<open>The collaborators\<close>

text \<open>
  What the bot calls outside this file, each as a function of its arguments: the Slack
  client (\<open>OpenConversation\<close>, \<open>SendMessageContext\<close>), the resolvers of users, the provider
  of pull requests, the Prow configuration, the clock (\<open>Now\<close>, in seconds), and
  \<open>jx.ConvertPipelineActivity\<close>. Three functions of the repository itself are declared in
  files that are not among the sources and are parameters too: \<open>getPipelineActivities\<close>,
  which lists the stored activities of a pull request, \<open>getUserFriendlyMapping\<close> and
  \<open>containsIgnoreCase\<close>. So are \<open>strings.Title\<close>, \<open>TrimSpace\<close> and \<open>Fields\<close>, whose Unicode
  tables are not written out. Of a stored activity the bot reads the build identifier
  only, before it is converted.
\<close>

type_synonym GitProvider = string

record GitUserResolver =
  ResolverProvider :: GitProvider

record KeeperQuery =
  ForRepo :: "string \<Rightarrow> string \<Rightarrow> bool"
  QueryLabels :: "string list"

record PipelineActivity =
  ActivityName :: string
  SpecBuild :: string

record env =
  OpenConversation :: "string \<Rightarrow> error + string"
  SendMessageContext :: "string \<Rightarrow> MsgOption list \<Rightarrow> string \<times> string \<times> error option"
  SlackUserLogin :: "User option \<Rightarrow> string \<times> error option"
  Resolve :: "GitUserResolver option \<Rightarrow> GitUser option \<Rightarrow> User option \<times> error option"
  GitProviderKey :: "GitUserResolver option \<Rightarrow> string"
  CreateGitProviderForURLWithoutKind :: "string \<Rightarrow> error + GitProvider"
  GetPullRequest :: "GitProvider \<Rightarrow> int \<Rightarrow> GitPullRequest option \<times> error option"
  GetProwConfig :: "error + KeeperQuery list"
  getPipelineActivities :: "string \<Rightarrow> string \<Rightarrow> int \<Rightarrow> error + PipelineActivity list"
  ConvertPipelineActivity :: "PipelineActivity \<Rightarrow> error + ActivityRecord"
  Now :: int
  strings_Title :: "string \<Rightarrow> string"
  strings_TrimSpace :: "string \<Rightarrow> string"
  strings_Fields :: "string \<Rightarrow> string list"
  getUserFriendlyMapping :: "string \<Rightarrow> string"
  containsIgnoreCase :: "string list \<Rightarrow> string \<Rightarrow> bool"

text \<open>
  The bot: its status policy, its rules, and the reference store \<open>Timestamps\<close>, a map of
  maps from the channel and the name of an activity to a reference (the outer map is
  taken to be made when the bot is). \<open>SinkCalls\<close> is not a field of the program: it
  records, in order, the calls made on the Slack client.
\<close>

record SlackBotOptions =
  Statuses :: Statuses
  Pipelines :: "SlackBotMode list"
  PullRequests :: "SlackBotMode list"
  Timestamps :: "string \<rightharpoonup> (string \<rightharpoonup> MessageReference)"
  SinkCalls :: "SinkCall list"


section \<open>Text helpers\<close>

definition link :: "string \<Rightarrow> string \<Rightarrow> string" where
  "link text' url =
     (if url \<noteq> [] then
        (let text' = (if text' = [] then url else text')
         in ''<'' @ url @ ''|'' @ text' @ ''>'')
      else text')"

definition pullRequestName :: "string \<Rightarrow> string" where
  "pullRequestName url =
     (let idx = LastIndex url (CHR ''/'')
      in if idx > 0 then ''#'' @ drop (nat (idx + 1)) url else url)"

definition repositoryName :: "ActivityRecord \<Rightarrow> string" where
  "repositoryName act =
     (let details = createPipelineDetails act;
          gitURL = GitURL act;
          ownerURL = TrimSuffix gitURL ''/'';
          idx = LastIndex ownerURL (CHR ''/'');
          ownerURL = (if idx > 0 then take (nat (idx + 1)) ownerURL else ownerURL)
      in link (GitOwner details) ownerURL @ ''/'' @ link (GitRepository details) gitURL)"

definition buildNumber :: "ActivityRecord \<Rightarrow> string" where
  "buildNumber activity = link (''#'' @ BuildIdentifier activity) (LinkURL activity)"

definition channelName :: "string \<Rightarrow> string" where
  "channelName channel = (if \<not> HasPrefix channel ''#'' then ''#'' @ channel else channel)"

definition mentionUser :: "string \<Rightarrow> string" where
  "mentionUser id' = ''<@'' @ id' @ ''>''"

definition pipelineName :: "ActivityRecord \<Rightarrow> string \<times> error option" where
  "pipelineName activity =
     (let name = Owner activity @ ''/'' @ Repo activity @ ''/'' @ Branch activity
      in if HasSuffix name ''/master'' then (''Release Pipeline'', None)
         else (case getPullRequestNumber activity of
                 (prn, Some err) \<Rightarrow>
                   ([], Some (Wrap err (''getting pull request number from '' @ Name activity)))
               | (prn, None) \<Rightarrow>
                   if prn > 0 then (''Pull Request Pipeline'', None) else (''Pipeline'', None)))"

section \<open>Status of a pipeline and its colour\<close>

definition attachmentColor :: "PipelineState \<Rightarrow> string" where
  "attachmentColor statusType =
     (case statusType of
        FailureState \<Rightarrow> ''danger''
      | SuccessState \<Rightarrow> ''good''
      | RunningState \<Rightarrow> ''#3AA3E3''
      | PendingState \<Rightarrow> ''#3AA3E3''
      | _ \<Rightarrow> [])"

definition pipelineIcon :: "PipelineState \<Rightarrow> string" where
  "pipelineIcon statusType =
     (case statusType of
        FailureState \<Rightarrow> []
      | SuccessState \<Rightarrow> []
      | RunningState \<Rightarrow> []
      | PendingState \<Rightarrow> []
      | _ \<Rightarrow> [])"

text \<open>
  The loop of \<open>pipelineStatus\<close>: every stage is read through its pointer, and the last
  one read gives the status.
\<close>

fun lastStageStatus :: "PipelineState \<Rightarrow> ActivityStageOrStep option list \<Rightarrow> PipelineState outcome" where
  "lastStageStatus statusType [] = Return statusType"
| "lastStageStatus statusType (None # stages) = Panic"
| "lastStageStatus statusType (Some step # stages) = lastStageStatus (StepStatus step) stages"

text \<open>
  \<open>pipelineStatus\<close>: a Go \<open>switch\<close> does not fall through, so the empty case of
  \<open>AbortedState\<close> and \<open>FailureState\<close> leaves the switch and goes on to the loop, as every
  status but \<open>SuccessState\<close> does.
\<close>

definition pipelineStatus :: "ActivityRecord \<Rightarrow> PipelineState outcome" where
  "pipelineStatus activity =
     (let statusType = Status activity
      in case statusType of
           AbortedState \<Rightarrow> lastStageStatus statusType (Stages activity)
         | FailureState \<Rightarrow> lastStageStatus statusType (Stages activity)
         | SuccessState \<Rightarrow> Return statusType
         | _ \<Rightarrow> lastStageStatus statusType (Stages activity))"

definition statusString :: "SlackBotOptions \<Rightarrow> PipelineState \<Rightarrow> string outcome" where
  "statusString o' statusType =
     (let emojiOf = (\<lambda>p. case p of None \<Rightarrow> Panic | Some q \<Rightarrow> Return (Emoji (deref q)))
      in case statusType of
           FailureState \<Rightarrow> emojiOf (getStatus (Failed (Statuses o')) (Failed defaultStatuses))
         | AbortedState \<Rightarrow> emojiOf (getStatus (Failed (Statuses o')) (Failed defaultStatuses))
         | SuccessState \<Rightarrow> emojiOf (getStatus (Succeeded (Statuses o')) (Succeeded defaultStatuses))
         | RunningState \<Rightarrow> emojiOf (getStatus (Running (Statuses o')) (Running defaultStatuses))
         | PendingState \<Rightarrow> emojiOf (getStatus (Running (Statuses o')) (Running defaultStatuses))
         | _ \<Rightarrow> Return [])"

section \<open>Times\<close>

definition getLastUpdatedTime :: "GitPullRequest option \<Rightarrow> ActivityRecord option \<Rightarrow> int" where
  "getLastUpdatedTime pr activity =
     (let updatedEpochTime = - 1;
          updatedEpochTime =
            (case pr of
               Some p \<Rightarrow> (case UpdatedAt p of Some t \<Rightarrow> t | None \<Rightarrow> updatedEpochTime)
             | None \<Rightarrow> updatedEpochTime);
          updatedEpochTime =
            (case activity of
               Some a \<Rightarrow>
                 (case StartTime a of
                    Some start \<Rightarrow> if start > updatedEpochTime then start else updatedEpochTime
                  | None \<Rightarrow> updatedEpochTime)
             | None \<Rightarrow> updatedEpochTime);
          updatedEpochTime =
            (case activity of
               Some a \<Rightarrow>
                 (case CompletionTime a of
                    Some completed \<Rightarrow>
                      if completed > updatedEpochTime then completed else updatedEpochTime
                  | None \<Rightarrow> updatedEpochTime)
             | None \<Rightarrow> updatedEpochTime)
      in updatedEpochTime)"

section \<open>Labels\<close>

text \<open>
  \<open>containsOneOf\<close>: the name of a label is read when it is compared, so a label without
  a name stops the program unless a match came before it.
\<close>

fun containsOneOf :: "string option list \<Rightarrow> string list \<Rightarrow> bool outcome" where
  "containsOneOf [] x = Return False"
| "containsOneOf (n # a) x =
     (if x = [] then containsOneOf a x
      else (case n of
              None \<Rightarrow> Panic
            | Some name \<Rightarrow> if name \<in> set x then Return True else containsOneOf a x))"

section \<open>The stage attachments\<close>

definition isUserPipelineStep :: "env \<Rightarrow> string \<Rightarrow> bool outcome" where
  "isUserPipelineStep e name =
     (if strings_TrimSpace e name = [] then Return False
      else (case strings_Fields e name of
              [] \<Rightarrow> Panic
            | firstWord # _ \<Rightarrow>
                Return (containsIgnoreCase e
                  [''setup'', ''setVersion'', ''preBuild'', ''build'', ''postBuild'', ''promote'',
                   ''pipeline'']
                  firstWord)))"

definition createStepAttachment ::
  "env \<Rightarrow> SlackBotOptions \<Rightarrow> ActivityStageOrStep \<Rightarrow> string \<Rightarrow> string \<Rightarrow> string \<Rightarrow> Attachment outcome" where
  "createStepAttachment e o' step name description iconUrl =
     (let text' = description;
          textName = strings_Title e name;
          textName = (if textName = [] then StepName step else textName);
          textName = getUserFriendlyMapping e textName;
          stepStatus = StepStatus step
      in case statusString o' stepStatus of
           Panic \<Rightarrow> Panic
         | Return emoji \<Rightarrow>
             (let textMessage = emoji @ '' '' @ textName;
                  textMessage = (if text' \<noteq> [] then textMessage @ '' '' @ text' else textMessage)
              in Return \<lparr>CallbackID = [], Color = attachmentColor stepStatus,
                         AttachmentTitle = [], AttachmentText = textMessage, Fallback = [],
                         Actions = [], Fields = [], Ts = [], FooterIcon = iconUrl,
                         MarkdownIn = [''fields'']\<rparr>))"

fun stepAttachments ::
  "env \<Rightarrow> SlackBotOptions \<Rightarrow> ActivityStageOrStep option list \<Rightarrow> Attachment list \<Rightarrow> Attachment list outcome" where
  "stepAttachments e o' [] attachments = Return attachments"
| "stepAttachments e o' (None # steps) attachments = Panic"
| "stepAttachments e o' (Some step # steps) attachments =
     (case isUserPipelineStep e (StepName step) of
        Panic \<Rightarrow> Panic
      | Return False \<Rightarrow> stepAttachments e o' steps attachments
      | Return True \<Rightarrow>
          (case createStepAttachment e o' step [] [] [] of
             Panic \<Rightarrow> Panic
           | Return a \<Rightarrow> stepAttachments e o' steps (attachments @ [a])))"

definition createStageAttachments ::
  "env \<Rightarrow> SlackBotOptions \<Rightarrow> ActivityRecord \<Rightarrow> ActivityStageOrStep \<Rightarrow> Attachment list outcome" where
  "createStageAttachments e o' activity stage =
     (let name = StepName stage;
          name = (if name = [] then ''Stage'' else name)
      in case createStepAttachment e o' stage name [] [] of
           Panic \<Rightarrow> Panic
         | Return a \<Rightarrow>
             if StepName stage \<noteq> ''meta pipeline''
             then stepAttachments e o' (Steps stage) [a]
             else Return [a])"

definition createAttachments ::
  "env \<Rightarrow> SlackBotOptions \<Rightarrow> ActivityRecord \<Rightarrow> ActivityStageOrStep option \<Rightarrow> Attachment list outcome" where
  "createAttachments e o' activity step =
     (case step of
        Some s \<Rightarrow> createStageAttachments e o' activity s
      | None \<Rightarrow> Return [])"

fun stageAttachments ::
  "env \<Rightarrow> SlackBotOptions \<Rightarrow> ActivityRecord \<Rightarrow> ActivityStageOrStep option list \<Rightarrow> Attachment list \<Rightarrow> Attachment list outcome" where
  "stageAttachments e o' activity [] attachments = Return attachments"
| "stageAttachments e o' activity (step # stages) attachments =
     (case createAttachments e o' activity step of
        Panic \<Rightarrow> Panic
      | Return stepAtts \<Rightarrow>
          stageAttachments e o' activity stages
            (if length stepAtts > 0 then attachments @ stepAtts else attachments))"


section \<open>The pipeline message\<close>

text \<open>
  \<open>createPipelineMessage\<close> returns the attachments, \<open>createIfMissing\<close> and an error. The
  time of the message comes from \<open>getLastUpdatedTime(nil, activity)\<close>: the pull request
  is not passed on. \<open>Now e\<close> is \<open>time.Now()\<close> in seconds.
\<close>

definition createPipelineMessage ::
  "env \<Rightarrow> SlackBotOptions \<Rightarrow> ActivityRecord \<Rightarrow> GitPullRequest option
     \<Rightarrow> (Attachment list \<times> bool \<times> error option) outcome" where
  "createPipelineMessage e o' activity pr =
     (case pipelineStatus activity of
        Panic \<Rightarrow> Panic
      | Return status \<Rightarrow>
     (let icon = pipelineIcon status
      in case pipelineName activity of
           (pipelineName', Some err) \<Rightarrow>
             Return ([], False, Some (Wrap err (''getting pipeline name for '' @ Name activity)))
         | (pipelineName', None) \<Rightarrow>
     (let messageText = icon @ pipelineName' @ '' '' @ repositoryName activity
      in case getPullRequestNumber activity of
           (prn, Some err) \<Rightarrow> Return ([], False, Some err)
         | (prn, None) \<Rightarrow>
     (case (if prn > 0
            then (case pr of
                    None \<Rightarrow> Panic
                  | Some p \<Rightarrow> Return (messageText @ link (pullRequestName (URL p)) (URL p)))
            else Return messageText) of
        Panic \<Rightarrow> Panic
      | Return messageText \<Rightarrow>
     (let messageText = messageText @ '' (Build '' @ buildNumber activity @ '')'';
          attachments = [];
          actions = [];
          fallback = [];
          (fallback, actions) =
            (if GitURL activity \<noteq> [] then
               (fallback @ [''Repo: '' @ GitURL activity],
                actions @ [\<lparr>ActionType = ''button'', ActionText = ''Repository'',
                             ActionURL = GitURL activity\<rparr>])
             else (fallback, actions));
          (fallback, actions) =
            (if LinkURL activity \<noteq> [] then
               (fallback @ [''Build: '' @ LinkURL activity],
                actions @ [\<lparr>ActionType = ''button'', ActionText = ''Pipeline'',
                             ActionURL = LinkURL activity\<rparr>])
             else (fallback, actions));
          (fallback, actions) =
            (if LogURL activity \<noteq> [] then
               (fallback @ [''Logs: '' @ LogURL activity],
                actions @ [\<lparr>ActionType = ''button'', ActionText = ''Build Logs'',
                             ActionURL = Replace (LogURL activity) ''gs://''
                               ''https://storage.cloud.google.com/''\<rparr>])
             else (fallback, actions));
          attachment =
            \<lparr>CallbackID = ''pipelineactivity:'' @ Name activity,
             Color = attachmentColor status,
             AttachmentTitle = messageText,
             AttachmentText = [],
             Fallback = Join fallback '', '',
             Actions = actions,
             Fields = [],
             Ts = [],
             FooterIcon = [],
             MarkdownIn = []\<rparr>;
          lastUpdatedTime = getLastUpdatedTime None (Some activity);
          attachment =
            (if lastUpdatedTime > 0 then attachment\<lparr>Ts := FormatInt lastUpdatedTime\<rparr>
             else attachment);
          dayAgo = Now e - 24 * 3600;
          createIfMissing = True;
          createIfMissing = (if lastUpdatedTime < dayAgo then False else createIfMissing);
          attachments = attachments @ [attachment]
      in case stageAttachments e o' activity (Stages activity) attachments of
           Panic \<Rightarrow> Panic
         | Return attachments \<Rightarrow> Return (attachments, createIfMissing, None))))))"

section \<open>The review message\<close>

definition mentionOrLinkUser :: "env \<Rightarrow> User option \<Rightarrow> (string \<times> error option) outcome" where
  "mentionOrLinkUser e user =
     (case SlackUserLogin e user of
        (id', Some err) \<Rightarrow> Return ([], Some err)
      | (id', None) \<Rightarrow>
          if id' \<noteq> [] then Return (mentionUser id', None)
          else (case user of
                  None \<Rightarrow> Panic
                | Some u \<Rightarrow>
                    if SpecName u \<noteq> [] \<and> SpecURL u \<noteq> []
                    then Return (link (SpecName u) (SpecURL u), None)
                    else if SpecName u \<noteq> [] then Return (SpecName u, None)
                    else Return ([], None)))"

definition isLgtmRepo :: "env \<Rightarrow> ActivityRecord \<Rightarrow> bool \<times> error option" where
  "isLgtmRepo e activity =
     (case GetProwConfig e of
        Inl err \<Rightarrow> (False, Some (Wrap err ''getting prow config''))
      | Inr queries \<Rightarrow>
          (let pipeDetails = createPipelineDetails activity
           in (list_ex
                 (\<lambda>query. ForRepo query (GitOwner pipeDetails) (GitRepository pipeDetails)
                            \<and> ''lgtm'' \<in> set (QueryLabels query))
                 queries,
               None)))"

text \<open>The loop over the requested reviewers, when reviewers are notified.\<close>

fun reviewerMentions ::
  "env \<Rightarrow> GitUserResolver option \<Rightarrow> GitUser option list \<Rightarrow> string list
     \<Rightarrow> (string list \<times> error option) outcome" where
  "reviewerMentions e resolver [] mentions = Return (mentions, None)"
| "reviewerMentions e resolver (r # rs) mentions =
     (case Resolve e resolver r of
        (u, Some err) \<Rightarrow>
          (case r of
             None \<Rightarrow> Panic
           | Some r' \<Rightarrow>
               Return ([], Some (Wrap err (''resolving '' @ GitProviderKey e resolver @ '' user ''
                                            @ Login r' @ '' as Jenkins X user''))))
      | (None, None) \<Rightarrow> reviewerMentions e resolver rs mentions
      | (Some u, None) \<Rightarrow>
          (case mentionOrLinkUser e (Some u) of
             Panic \<Rightarrow> Panic
           | Return (mention, Some err) \<Rightarrow>
               Return ([], Some (Wrap err (''generating mention or link for user record ''
                                            @ UserName u @ '' with email '' @ SpecEmail u)))
           | Return (mention, None) \<Rightarrow> reviewerMentions e resolver rs (mentions @ [mention])))"

text \<open>
  The review status (the block that starts at \<open>The default state is not approved\<close>):
  four assignments in a row, the later ones over the earlier ones.
\<close>

definition reviewStatusOf :: "Statuses \<Rightarrow> bool \<Rightarrow> string option list \<Rightarrow> StatusPtr option outcome" where
  "reviewStatusOf sts lgtmRepo labels =
     (let reviewStatus = getStatus (NotApproved sts) (NotApproved defaultStatuses)
      in case (if lgtmRepo
               then (case containsOneOf labels [''lgtm''] of
                       Panic \<Rightarrow> Panic
                     | Return c \<Rightarrow>
                         Return (if c then getStatus (LGTM sts) (LGTM defaultStatuses)
                                 else reviewStatus))
               else (case containsOneOf labels [''approved''] of
                       Panic \<Rightarrow> Panic
                     | Return c \<Rightarrow>
                         Return (if c then getStatus (Approved sts) (Approved defaultStatuses)
                                 else reviewStatus))) of
           Panic \<Rightarrow> Panic
         | Return reviewStatus \<Rightarrow>
             (case containsOneOf labels [''do-not-merge/hold''] of
                Panic \<Rightarrow> Panic
              | Return c \<Rightarrow>
                  (let reviewStatus =
                         (if c then getStatus (Hold sts) (Hold defaultStatuses) else reviewStatus)
                   in case containsOneOf labels [''needs-ok-to-test''] of
                        Panic \<Rightarrow> Panic
                      | Return c \<Rightarrow>
                          Return (if c then getStatus (NeedsOkToTest sts)
                                              (NeedsOkToTest defaultStatuses)
                                  else reviewStatus))))"

text \<open>The build status (the block that starts at \<open>The default build state is unknown\<close>).\<close>

definition buildStatusOf :: "Statuses \<Rightarrow> GitPullRequest \<Rightarrow> ActivityRecord \<Rightarrow> StatusPtr option" where
  "buildStatusOf sts pr activity =
     (let buildStatus = getStatus (Unknown sts) (Unknown defaultStatuses)
      in if (case GitPullRequest.Merged pr of None \<Rightarrow> False | Some merged \<Rightarrow> merged)
         then getStatus (Merged sts) (Merged defaultStatuses)
         else if IsClosed pr then getStatus (Closed sts) (Closed defaultStatuses)
         else (case Status activity of
                 PendingState \<Rightarrow> getStatus (Pending sts) (Pending defaultStatuses)
               | RunningState \<Rightarrow> getStatus (Running sts) (Running defaultStatuses)
               | SuccessState \<Rightarrow> getStatus (Succeeded sts) (Succeeded defaultStatuses)
               | FailureState \<Rightarrow> getStatus (Failed sts) (Failed defaultStatuses)
               | AbortedState \<Rightarrow> getStatus (Aborted sts) (Aborted defaultStatuses)
               | _ \<Rightarrow> buildStatus))"

text \<open>One field of the attachment: the emoji and the text read through the pointer.\<close>

definition statusField :: "StatusPtr option \<Rightarrow> AttachmentField outcome" where
  "statusField status =
     (case status of
        None \<Rightarrow> Panic
      | Some p \<Rightarrow> Return \<lparr>Value = Emoji (deref p) @ '' '' @ Text (deref p), Short = True\<rparr>)"

text \<open>
  \<open>createReviewersMessage\<close> returns the attachments (\<open>nil\<close> is \<open>None\<close>), the reviewers,
  the build status and an error. It reads \<open>pr.Author\<close> before it asks whether \<open>pr\<close> is
  \<open>nil\<close>. The list of reviewers is made empty and never added to.
\<close>

definition createReviewersMessage ::
  "env \<Rightarrow> SlackBotOptions \<Rightarrow> ActivityRecord \<Rightarrow> bool \<Rightarrow> GitPullRequest option
     \<Rightarrow> GitUserResolver option
     \<Rightarrow> (Attachment list option \<times> SlackUser option list \<times> StatusPtr option \<times> error option) outcome" where
  "createReviewersMessage e o' activity notifyReviewers pr resolver =
     (case pr of
        None \<Rightarrow> Panic
      | Some p \<Rightarrow>
     (case Resolve e resolver (Author p) of
        (author, Some err) \<Rightarrow> Return (None, [], None, Some err)
      | (author, None) \<Rightarrow>
     (case pipelineStatus activity of
        Panic \<Rightarrow> Panic
      | Return status \<Rightarrow>
     (case mentionOrLinkUser e author of
        Panic \<Rightarrow> Panic
      | Return (authorName, Some err) \<Rightarrow> Return (None, [], None, Some err)
      | Return (authorName, None) \<Rightarrow>
     (case (if notifyReviewers then reviewerMentions e resolver (RequestedReviewers p) []
            else Return ([], None)) of
        Panic \<Rightarrow> Panic
      | Return (mentions, Some err) \<Rightarrow> Return (None, [], None, Some err)
      | Return (mentions, None) \<Rightarrow>
     (let reviewers = []
      in case isLgtmRepo e activity of
           (lgtmRepo, Some err) \<Rightarrow>
             Return (None, [], None,
               Some (Wrap err (''checking if repo for '' @ Name activity
                               @ '' is configured for lgtm'')))
         | (lgtmRepo, None) \<Rightarrow>
     (case reviewStatusOf (Statuses o') lgtmRepo (Labels p) of
        Panic \<Rightarrow> Panic
      | Return reviewStatus \<Rightarrow>
     (let buildStatus = buildStatusOf (Statuses o') p activity;
          mentionsString = Join mentions '' '';
          pleaseText = (if length mentions = 0 then ''Please'' else ''please'');
          messageText =
            mentionsString @ '' '' @ pleaseText @ '' review ''
            @ link (''Pull Request '' @ pullRequestName (URL p) @ '' ('' @ Title p @ '')'') (URL p)
            @ '' created on '' @ repositoryName activity @ '' by '' @ authorName
      in case statusField reviewStatus of
           Panic \<Rightarrow> Panic
         | Return reviewField \<Rightarrow>
     (case statusField buildStatus of
        Panic \<Rightarrow> Panic
      | Return buildField \<Rightarrow>
     (let attachment =
            \<lparr>CallbackID = ''preview:'' @ Name activity,
             Color = attachmentColor status,
             AttachmentTitle = [],
             AttachmentText = messageText,
             Fallback = Join [] '', '',
             Actions = [],
             Fields = [reviewField, buildField],
             Ts = [],
             FooterIcon = [],
             MarkdownIn = []\<rparr>;
          updatedEpochTime = getLastUpdatedTime (Some p) (Some activity);
          attachment =
            (if updatedEpochTime > 0 then attachment\<lparr>Ts := FormatInt updatedEpochTime\<rparr>
             else attachment)
      in Return (Some ([] @ [attachment]), reviewers, buildStatus, None)))))))))))"


section \<open>Whether a rule is enabled\<close>

text \<open>
  \<open>getPullRequest\<close> returns the pull request, the resolver and an error. When the number
  is not positive the error of \<open>getPullRequestNumber\<close> is dropped with it.
\<close>

definition getPullRequest ::
  "env \<Rightarrow> ActivityRecord \<Rightarrow> GitPullRequest option \<times> GitUserResolver option \<times> error option" where
  "getPullRequest e activity =
     (case getPullRequestNumber activity of
        (prn, err) \<Rightarrow>
          if prn > 0 then
            (if err \<noteq> None then (None, None, err)
             else if GitURL activity = []
             then (None, None, Some (Errorf (''no GitURL on PipelineActivity '' @ Name activity)))
             else (case CreateGitProviderForURLWithoutKind e (GitURL activity) of
                     Inl err \<Rightarrow> (None, None, Some err)
                   | Inr gitProvider \<Rightarrow>
                       (case getPullRequestNumber activity of
                          (prn, Some err) \<Rightarrow> (None, None, Some err)
                        | (prn, None) \<Rightarrow>
                            (let resolver = \<lparr>ResolverProvider = gitProvider\<rparr>
                             in case GetPullRequest e gitProvider prn of
                                  (pr, err) \<Rightarrow> (pr, Some resolver, err)))))
          else (None, None, None))"

text \<open>The loop over the organisations of a rule.\<close>

fun orgFound :: "Org list \<Rightarrow> ActivityRecord \<Rightarrow> bool" where
  "orgFound [] activity = False"
| "orgFound (org # orgs) activity =
     (if OrgName org = Owner activity
      then (if length (Repos org) = 0 then True
            else if Repo activity \<in> set (Repos org) then True
            else orgFound orgs activity)
      else orgFound orgs activity)"

text \<open>
  The loops over the ignored labels: for each of them, every label of the pull request
  is read and compared.
\<close>

fun foundLabel :: "string \<Rightarrow> string option list \<Rightarrow> string list \<Rightarrow> string list outcome" where
  "foundLabel l [] found = Return found"
| "foundLabel l (None # vs) found = Panic"
| "foundLabel l (Some name # vs) found =
     foundLabel l vs (if name = l then found @ [name] else found)"

fun foundLabels :: "string list \<Rightarrow> string option list \<Rightarrow> string list \<Rightarrow> string list outcome" where
  "foundLabels [] labels found = Return found"
| "foundLabels (l # ls) labels found =
     (case foundLabel l labels found of
        Panic \<Rightarrow> Panic
      | Return found \<Rightarrow> foundLabels ls labels found)"

text \<open>
  \<open>isEnabled\<close> returns \<open>(bool, pr, resolver, error)\<close>. With ignored labels it reads
  \<open>pr.Labels\<close> without asking whether \<open>pr\<close> is \<open>nil\<close>.
\<close>

definition isEnabled ::
  "env \<Rightarrow> ActivityRecord \<Rightarrow> Org list \<Rightarrow> string list
     \<Rightarrow> (bool \<times> GitPullRequest option \<times> GitUserResolver option \<times> error option) outcome" where
  "isEnabled e activity orgs ignoreLabels =
     (if length orgs > 0 \<and> \<not> orgFound orgs activity then Return (False, None, None, None)
      else (case getPullRequest e activity of
              (pr, resolver, Some err) \<Rightarrow> Return (False, None, None, Some err)
            | (pr, resolver, None) \<Rightarrow>
                if length ignoreLabels > 0 then
                  (case pr of
                     None \<Rightarrow> Panic
                   | Some p \<Rightarrow>
                       (case foundLabels ignoreLabels (Labels p) [] of
                          Panic \<Rightarrow> Panic
                        | Return found \<Rightarrow>
                            if length found > 0 then Return (False, None, None, None)
                            else Return (True, pr, resolver, None)))
                else Return (True, pr, resolver, None)))"

section \<open>The activities of a pull request\<close>

text \<open>The build number of a build identifier: the number that \<open>Atoi\<close> returns for it.\<close>

definition buildNumberOf :: "string \<Rightarrow> int" where
  "buildNumberOf build = fst (Atoi build)"

text \<open>
  Modelled from the spec: \<open>byBuildNumber\<close>, the order that \<open>sort.Sort\<close> is given in
  \<open>findPipelineActivities\<close>, is declared in a file that is not among the sources. The
  spec has the activities sorted ascending by build identifier read as an integer, ties
  in the order of retrieval.
\<close>

definition byBuildNumber :: "PipelineActivity list \<Rightarrow> PipelineActivity list" where
  "byBuildNumber items = sort_key (\<lambda>a. buildNumberOf (SpecBuild a)) items"

fun convertActivities ::
  "env \<Rightarrow> PipelineActivity list \<Rightarrow> ActivityRecord list \<Rightarrow> ActivityRecord list \<times> error option" where
  "convertActivities e [] records = (records, None)"
| "convertActivities e (a # items) records =
     (case ConvertPipelineActivity e a of
        Inl err \<Rightarrow> ([], Some err)
      | Inr rec \<Rightarrow> convertActivities e items (records @ [rec]))"

text \<open>\<open>findPipelineActivities\<close> returns \<open>(oldest, latest, all, error)\<close>.\<close>

definition findPipelineActivities ::
  "env \<Rightarrow> ActivityRecord
     \<Rightarrow> ActivityRecord option \<times> ActivityRecord option \<times> ActivityRecord list \<times> error option" where
  "findPipelineActivities e activity =
     (case getPullRequestNumber activity of
        (prn, Some err) \<Rightarrow> (None, None, [], Some err)
      | (prn, None) \<Rightarrow>
          (let pipelineDetails = createPipelineDetails activity
           in case getPipelineActivities e (GitOwner pipelineDetails)
                     (GitRepository pipelineDetails) prn of
                Inl err \<Rightarrow> (None, None, [], Some err)
              | Inr items \<Rightarrow>
                  (case convertActivities e (byBuildNumber items) [] of
                     (records, Some err) \<Rightarrow> (None, None, [], Some err)
                   | (records, None) \<Rightarrow>
                       if length records > 0
                       then (Some (records ! 0), Some (records ! (length records - 1)),
                             records, None)
                       else (None, None, [], None))))"

section \<open>The reference store and \<open>postMessage\<close>\<close>

text \<open>\<open>o.Timestamps[channel][name]\<close>: reading a map that is not there gives \<open>nil\<close>.\<close>

definition messageRefOf :: "SlackBotOptions \<Rightarrow> string \<Rightarrow> string \<Rightarrow> MessageReference option" where
  "messageRefOf o' channel name =
     (case Timestamps o' channel of
        None \<Rightarrow> None
      | Some refs \<Rightarrow> refs name)"

text \<open>
  \<open>postMessage\<close> returns its error and leaves the bot changed: an empty map is made for
  a channel that has none before anything is sent, and the reference is written after
  \<open>SendMessageContext\<close> has returned without an error.
\<close>

definition postMessage ::
  "env \<Rightarrow> string \<Rightarrow> bool \<Rightarrow> string \<Rightarrow> ActivityRecord \<Rightarrow> ActivityRecord list \<Rightarrow> Attachment list
     \<Rightarrow> bool \<Rightarrow> SlackBotOptions \<Rightarrow> error option \<times> SlackBotOptions" where
  "postMessage e channel directMessage messageType activity all' attachments createIfMissing o' =
     (let timestamp = [];
          channelId = channel;
          messageRef = messageRefOf o' channel (Name activity);
          (timestamp, channelId) =
            (case messageRef of
               Some r \<Rightarrow> (Timestamp r, ChannelID r)
             | None \<Rightarrow> (timestamp, channelId));
          o' = (case Timestamps o' channel of
                  None \<Rightarrow> o'\<lparr>Timestamps := (Timestamps o')(channel \<mapsto> Map.empty)\<rparr>
                | Some refs \<Rightarrow> o');
          options = [MsgOptionAttachments attachments];
          o' = (if directMessage
                then o'\<lparr>SinkCalls := SinkCalls o' @ [CallOpenConversation channel]\<rparr>
                else o')
      in case (if directMessage then OpenConversation e channel else Inr channelId) of
           Inl err \<Rightarrow>
             (Some (Wrap err (''(open converation channelId: '' @ channelId @ '')'')), o')
         | Inr channelId \<Rightarrow>
             (let post = True;
                  (options, post) =
                    (if timestamp \<noteq> [] then (options @ [MsgOptionUpdate timestamp], post)
                     else if createIfMissing then (options, post)
                     else (options, False))
              in if post then
                   (let o' = o'\<lparr>SinkCalls :=
                                   SinkCalls o' @ [CallSendMessageContext channelId options]\<rparr>
                    in case SendMessageContext e channelId options of
                         (channelId, timestamp, Some err) \<Rightarrow>
                           (Some (Wrap err (''(post channelId: '' @ channelId @ '', timestamp: ''
                                            @ timestamp @ '')'')), o')
                       | (channelId, timestamp, None) \<Rightarrow>
                           (None,
                            o'\<lparr>Timestamps := (Timestamps o')(channel \<mapsto>
                                  (case Timestamps o' channel of
                                     None \<Rightarrow> Map.empty
                                   | Some refs \<Rightarrow> refs)
                                  (Name activity \<mapsto>
                                     \<lparr>ChannelID = channelId, Timestamp = timestamp\<rparr>))\<rparr>))
                 else (None, o')))"


section \<open>The review flow\<close>

text \<open>The direct messages to the reviewers, one after the other.\<close>

fun reviewerMessages ::
  "env \<Rightarrow> ActivityRecord \<Rightarrow> SlackUser option list \<Rightarrow> ActivityRecord \<Rightarrow> ActivityRecord list
     \<Rightarrow> Attachment list \<Rightarrow> bool \<Rightarrow> SlackBotOptions \<Rightarrow> error option \<times> SlackBotOptions" where
  "reviewerMessages e activity [] oldestActivity all' attachments createIfMissing o' = (None, o')"
| "reviewerMessages e activity (None # users) oldestActivity all' attachments createIfMissing o' =
     reviewerMessages e activity users oldestActivity all' attachments createIfMissing o'"
| "reviewerMessages e activity (Some user # users) oldestActivity all' attachments createIfMissing o' =
     (case postMessage e (ID user) True ''pr'' oldestActivity all' attachments createIfMissing o' of
        (Some err, o') \<Rightarrow>
          (Some (Wrap err (''error sending direct PR review request for '' @ Name activity
                           @ '' to '' @ ID user)), o')
      | (None, o') \<Rightarrow>
          reviewerMessages e activity users oldestActivity all' attachments createIfMissing o')"

text \<open>
  What \<open>ReviewRequestMessage\<close> does once a rule is enabled and the activity is not older
  than the latest one: the branch of \<open>buildNumber >= latestBuildNumber\<close>. It returns the
  error, or a panic, and the bot.
\<close>

definition reviewRequest ::
  "env \<Rightarrow> ActivityRecord \<Rightarrow> SlackBotMode \<Rightarrow> GitPullRequest option \<Rightarrow> GitUserResolver option
     \<Rightarrow> ActivityRecord \<Rightarrow> ActivityRecord list \<Rightarrow> SlackBotOptions
     \<Rightarrow> error option outcome \<times> SlackBotOptions" where
  "reviewRequest e activity cfg pullRequest resolver oldestActivity all' o' =
     (case createReviewersMessage e o' activity (NotifyReviewers cfg) pullRequest resolver of
        Panic \<Rightarrow> (Panic, o')
      | Return (attachments, reviewers, buildStatus, Some err) \<Rightarrow> (Return (Some err), o')
      | Return (attachments, reviewers, buildStatus, None) \<Rightarrow>
          (let createIfMissing = True;
               createIfMissing =
                 (if buildStatus = Merged defaultStatuses \<or> buildStatus = Closed defaultStatuses
                  then False else createIfMissing)
           in case attachments of
                None \<Rightarrow> (Return None, o')
              | Some attachments \<Rightarrow>
                  (case (if Channel cfg \<noteq> []
                         then (case postMessage e (channelName (Channel cfg)) False ''pr''
                                      oldestActivity all' attachments createIfMissing o' of
                                 (Some err, o') \<Rightarrow>
                                   (Some (Wrap err (''error posting PR review request for ''
                                                    @ Name activity @ '' to channel ''
                                                    @ channelName (Channel cfg))), o')
                               | (None, o') \<Rightarrow> (None, o'))
                         else (None, o')) of
                     (Some err, o') \<Rightarrow> (Return (Some err), o')
                   | (None, o') \<Rightarrow>
                       if DirectMessage cfg \<and> NotifyReviewers cfg
                       then (case reviewerMessages e activity reviewers oldestActivity all'
                                    attachments createIfMissing o' of
                               (err, o') \<Rightarrow> (Return err, o'))
                       else (Return None, o'))))"

text \<open>
  The body of the loop of \<open>ReviewRequestMessage\<close> for one rule. The error of the second
  \<open>Atoi\<close>, on the latest activity, is assigned and never read.
\<close>

definition reviewRule ::
  "env \<Rightarrow> ActivityRecord \<Rightarrow> SlackBotMode \<Rightarrow> SlackBotOptions
     \<Rightarrow> error option outcome \<times> SlackBotOptions" where
  "reviewRule e activity cfg o' =
     (case isEnabled e activity (Orgs cfg) (IgnoreLabels cfg) of
        Panic \<Rightarrow> (Panic, o')
      | Return (enabled, pullRequest, resolver, Some err) \<Rightarrow> (Return (Some err), o')
      | Return (enabled, pullRequest, resolver, None) \<Rightarrow>
          if enabled then
            (case findPipelineActivities e activity of
               (oldestActivity, latestActivity, all', Some err) \<Rightarrow> (Return (Some err), o')
             | (oldestActivity, latestActivity, all', None) \<Rightarrow>
                 (case Atoi (Build (createPipelineDetails activity)) of
                    (buildNumber', Some err) \<Rightarrow> (Return (Some err), o')
                  | (buildNumber', None) \<Rightarrow>
                      (let latestBuildNumber = - 1;
                           latestBuildNumber =
                             (case latestActivity of
                                Some latest \<Rightarrow> fst (Atoi (Build (createPipelineDetails latest)))
                              | None \<Rightarrow> latestBuildNumber);
                           oldestActivity =
                             (case oldestActivity of
                                None \<Rightarrow> activity
                              | Some oldest \<Rightarrow> oldest)
                       in if buildNumber' \<ge> latestBuildNumber
                          then reviewRequest e activity cfg pullRequest resolver oldestActivity
                                 all' o'
                          else (Return None, o'))))
          else (Return None, o'))"

fun reviewRules ::
  "env \<Rightarrow> ActivityRecord \<Rightarrow> SlackBotMode list \<Rightarrow> SlackBotOptions
     \<Rightarrow> error option outcome \<times> SlackBotOptions" where
  "reviewRules e activity [] o' = (Return None, o')"
| "reviewRules e activity (cfg # cfgs) o' =
     (case reviewRule e activity cfg o' of
        (Return None, o') \<Rightarrow> reviewRules e activity cfgs o'
      | (r, o') \<Rightarrow> (r, o'))"

definition ReviewRequestMessage ::
  "env \<Rightarrow> ActivityRecord \<Rightarrow> SlackBotOptions \<Rightarrow> error option outcome \<times> SlackBotOptions" where
  "ReviewRequestMessage e activity o' =
     (if Name activity = []
      then (Return (Some (Errorf ''PipelineActivity name cannot be empty'')), o')
      else (case getPullRequestNumber activity of
              (prn, Some err) \<Rightarrow>
                (Return (Some (Wrap err (''getting pull request number '' @ Name activity))), o')
            | (prn, None) \<Rightarrow>
                if prn > 0 then reviewRules e activity (PullRequests o') o'
                else (Return None, o')))"

section \<open>The pipeline flow\<close>

definition resolveGitUserToSlackUser ::
  "env \<Rightarrow> GitUser option \<Rightarrow> GitUserResolver option \<Rightarrow> string \<times> error option" where
  "resolveGitUserToSlackUser e user resolver =
     (case Resolve e resolver user of
        (resolved, Some err) \<Rightarrow> ([], Some err)
      | (resolved, None) \<Rightarrow> SlackUserLogin e resolved)"

text \<open>
  The body of the loop of \<open>PipelineMessage\<close> for one rule. The message of the error for
  an author who cannot be resolved ends with the author pointer as \<open>\<percent>s\<close> prints it,
  which is left out here.
\<close>

definition pipelineRule ::
  "env \<Rightarrow> ActivityRecord \<Rightarrow> SlackBotMode \<Rightarrow> SlackBotOptions
     \<Rightarrow> error option outcome \<times> SlackBotOptions" where
  "pipelineRule e activity cfg o' =
     (case isEnabled e activity (Orgs cfg) (IgnoreLabels cfg) of
        Panic \<Rightarrow> (Panic, o')
      | Return (enabled, pullRequest, resolver, Some err) \<Rightarrow> (Return (Some err), o')
      | Return (enabled, pullRequest, resolver, None) \<Rightarrow>
          if enabled then
            (case createPipelineMessage e o' activity pullRequest of
               Panic \<Rightarrow> (Panic, o')
             | Return (attachments, createIfMissing, Some err) \<Rightarrow> (Return (Some err), o')
             | Return (attachments, createIfMissing, None) \<Rightarrow>
                 (case (if Channel cfg \<noteq> []
                        then (case postMessage e (channelName (Channel cfg)) False ''pipeline''
                                     activity [] attachments createIfMissing o' of
                                (Some err, o') \<Rightarrow>
                                  (Some (Wrap err (''error posting cfg for '' @ Name activity
                                                   @ '' to channel ''
                                                   @ channelName (Channel cfg))), o')
                              | (None, o') \<Rightarrow> (None, o'))
                        else (None, o')) of
                    (Some err, o') \<Rightarrow> (Return (Some err), o')
                  | (None, o') \<Rightarrow>
                      if DirectMessage cfg then
                        (case pullRequest of
                           None \<Rightarrow> (Return None, o')
                         | Some p \<Rightarrow>
                             (case resolveGitUserToSlackUser e (Author p) resolver of
                                (id', Some err) \<Rightarrow>
                                  (Return (Some (Wrap err
                                     ''Cannot resolve Slack ID for Git user '')), o')
                              | (id', None) \<Rightarrow>
                                  if id' \<noteq> [] then
                                    (case postMessage e id' True ''pipeline'' activity []
                                            attachments createIfMissing o' of
                                       (Some err, o') \<Rightarrow>
                                         (Return (Some (Wrap err
                                            (''error sending direct pipeline for ''
                                             @ Name activity @ '' to '' @ id'))), o')
                                     | (None, o') \<Rightarrow> (Return None, o'))
                                  else (Return None, o')))
                      else (Return None, o')))
          else (Return None, o'))"

fun pipelineRules ::
  "env \<Rightarrow> ActivityRecord \<Rightarrow> SlackBotMode list \<Rightarrow> SlackBotOptions
     \<Rightarrow> error option outcome \<times> SlackBotOptions" where
  "pipelineRules e activity [] o' = (Return None, o')"
| "pipelineRules e activity (cfg # cfgs) o' =
     (case pipelineRule e activity cfg o' of
        (Return None, o') \<Rightarrow> pipelineRules e activity cfgs o'
      | (r, o') \<Rightarrow> (r, o'))"

definition PipelineMessage ::
  "env \<Rightarrow> ActivityRecord \<Rightarrow> SlackBotOptions \<Rightarrow> error option outcome \<times> SlackBotOptions" where
  "PipelineMessage e activity o' =
     (if Name activity = []
      then (Return (Some (Errorf ''PipelineActivity name cannot be empty'')), o')
      else pipelineRules e activity (Pipelines o') o')"


section \<open>Definitions for the properties\<close>

text \<open>The number that a string of decimal digits stands for.\<close>

definition decimalValue :: "string \<Rightarrow> int" where
  "decimalValue ds = foldl (\<lambda>n c. n * 10 + digitVal c) 0 ds"

subsection \<open>The status policy in the words of the spec\<close>

text \<open>The override of a kind of status in a policy, if it has one.\<close>

fun overrideOf :: "Statuses \<Rightarrow> StatusKind \<Rightarrow> StatusPtr option" where
  "overrideOf sts KindMerged = Merged sts"
| "overrideOf sts KindClosed = Closed sts"
| "overrideOf sts KindAborted = Aborted sts"
| "overrideOf sts KindErrored = Errored sts"
| "overrideOf sts KindFailed = Failed sts"
| "overrideOf sts KindApproved = Approved sts"
| "overrideOf sts KindNotApproved = NotApproved sts"
| "overrideOf sts KindNeedsOkToTest = NeedsOkToTest sts"
| "overrideOf sts KindHold = Hold sts"
| "overrideOf sts KindPending = Pending sts"
| "overrideOf sts KindRunning = Running sts"
| "overrideOf sts KindSucceeded = Succeeded sts"
| "overrideOf sts KindLGTM = LGTM sts"
| "overrideOf sts KindUnknown = Unknown sts"

text \<open>If the policy defines the kind, that status; else the one of the default table.\<close>

definition statusFor :: "Statuses \<Rightarrow> StatusKind \<Rightarrow> StatusPtr" where
  "statusFor sts kind = (case overrideOf sts kind of Some p \<Rightarrow> p | None \<Rightarrow> DefaultStatus kind)"

text \<open>
  The review status as an ordered list of rules on the set of labels; the last rule that
  matches gives the kind. In a repository configured for \<open>lgtm\<close> only the label \<open>lgtm\<close>
  approves, in any other only the label \<open>approved\<close>.
\<close>

definition reviewStatusRules :: "bool \<Rightarrow> ((string set \<Rightarrow> bool) \<times> StatusKind) list" where
  "reviewStatusRules lgtmRepo =
     [(\<lambda>labels. True, KindNotApproved),
      (\<lambda>labels. lgtmRepo \<and> ''lgtm'' \<in> labels, KindLGTM),
      (\<lambda>labels. \<not> lgtmRepo \<and> ''approved'' \<in> labels, KindApproved),
      (\<lambda>labels. ''do-not-merge/hold'' \<in> labels, KindHold),
      (\<lambda>labels. ''needs-ok-to-test'' \<in> labels, KindNeedsOkToTest)]"

definition lastMatching :: "((string set \<Rightarrow> bool) \<times> StatusKind) list \<Rightarrow> string set \<Rightarrow> StatusKind" where
  "lastMatching rules labels =
     foldl (\<lambda>kind (matches, kind'). if matches labels then kind' else kind) KindUnknown rules"

definition reviewKind :: "bool \<Rightarrow> string set \<Rightarrow> StatusKind" where
  "reviewKind lgtmRepo labels = lastMatching (reviewStatusRules lgtmRepo) labels"

text \<open>The names of the labels that have one.\<close>

definition labelNames :: "string option list \<Rightarrow> string set" where
  "labelNames labels = set (List.map_filter (\<lambda>l. l) labels)"

text \<open>The build status: merged, else closed, else the state of the pipeline, else unknown.\<close>

definition buildKind :: "bool \<Rightarrow> bool \<Rightarrow> PipelineState \<Rightarrow> StatusKind" where
  "buildKind merged closed state =
     (if merged then KindMerged
      else if closed then KindClosed
      else (case state of
              PendingState \<Rightarrow> KindPending
            | RunningState \<Rightarrow> KindRunning
            | SuccessState \<Rightarrow> KindSucceeded
            | FailureState \<Rightarrow> KindFailed
            | AbortedState \<Rightarrow> KindAborted
            | _ \<Rightarrow> KindUnknown))"

text \<open>The field of a message that shows a kind of status under a policy.\<close>

definition shown :: "Statuses \<Rightarrow> StatusKind \<Rightarrow> AttachmentField" where
  "shown sts kind =
     \<lparr>Value = Emoji (deref (statusFor sts kind)) @ '' '' @ Text (deref (statusFor sts kind)),
      Short = True\<rparr>"

subsection \<open>Times and readings of results\<close>

text \<open>The latest of the times that are set, and of \<open>-1\<close>.\<close>

definition latestTime :: "int option list \<Rightarrow> int" where
  "latestTime moments = foldl max (- 1) (List.map_filter (\<lambda>t. t) moments)"

text \<open>The timestamp and the colour of the first attachment of a pipeline message.\<close>

definition pipelineTs :: "(Attachment list \<times> bool \<times> error option) outcome \<Rightarrow> string" where
  "pipelineTs result =
     (case result of
        Return (attachment # rest, createIfMissing, None) \<Rightarrow> Ts attachment
      | _ \<Rightarrow> [])"

definition pipelineColor :: "(Attachment list \<times> bool \<times> error option) outcome \<Rightarrow> string" where
  "pipelineColor result =
     (case result of
        Return (attachment # rest, createIfMissing, None) \<Rightarrow> Color attachment
      | _ \<Rightarrow> [])"

text \<open>The values of the fields of the first attachment of a review message.\<close>

definition reviewFields ::
  "(Attachment list option \<times> SlackUser option list \<times> StatusPtr option \<times> error option) outcome
     \<Rightarrow> string list" where
  "reviewFields result =
     (case result of
        Return (Some (attachment # rest), reviewers, buildStatus, None) \<Rightarrow>
          map Value (Fields attachment)
      | _ \<Rightarrow> [])"

text \<open>A call that sends a message with no update option makes a new message.\<close>

definition isCreation :: "SinkCall \<Rightarrow> bool" where
  "isCreation call =
     (case call of
        CallOpenConversation user \<Rightarrow> False
      | CallSendMessageContext channelId options \<Rightarrow>
          list_all (\<lambda>option. case option of
                               MsgOptionUpdate timestamp \<Rightarrow> False
                             | MsgOptionAttachments attachments \<Rightarrow> True) options)"

subsection \<open>A scenario\<close>

text \<open>
  Build 3 of pull request 42 of \<open>acme/widgets\<close>, its pull request, collaborators that
  answer every call, and a bot with one rule for the channel \<open>reviews\<close>, no status
  override and an empty reference store.
\<close>

definition exampleActivity :: ActivityRecord where
  "exampleActivity =
     \<lparr>Name = ''acme-widgets-pr-42-3'', Owner = ''acme'', Repo = ''widgets'', Branch = ''PR-42'',
      BuildIdentifier = ''3'', Context = ''pr-build'', Status = RunningState,
      StartTime = Some 1600000000, CompletionTime = None,
      GitURL = ''https://github.com/acme/widgets'', LinkURL = ''https://ci/acme/widgets/3'',
      LogURL = ''gs://logs/acme/widgets/3.log'', Stages = []\<rparr>"

definition examplePullRequest :: GitPullRequest where
  "examplePullRequest =
     \<lparr>URL = ''https://github.com/acme/widgets/pull/42'', Title = ''Fix the widget'',
      Author = Some \<lparr>Login = ''jdoe''\<rparr>, RequestedReviewers = [],
      Labels = [Some ''approved'', Some ''do-not-merge/hold''], Merged = Some False,
      UpdatedAt = Some 1600000050, IsClosed = False\<rparr>"

definition exampleEnv :: env where
  "exampleEnv =
     \<lparr>OpenConversation = (\<lambda>user. Inr (''D-'' @ user)),
      SendMessageContext = (\<lambda>channelId options. (channelId, ''1600000100.000200'', None)),
      SlackUserLogin = (\<lambda>user. (''U123'', None)),
      Resolve = (\<lambda>resolver user.
        (Some \<lparr>UserName = ''jdoe'', SpecName = ''J Doe'', SpecURL = [], SpecEmail = []\<rparr>, None)),
      GitProviderKey = (\<lambda>resolver. ''github''),
      CreateGitProviderForURLWithoutKind = (\<lambda>url. Inr url),
      GetPullRequest = (\<lambda>provider prn. (Some examplePullRequest, None)),
      GetProwConfig = Inr [],
      getPipelineActivities = (\<lambda>owner repo prn.
        Inr [\<lparr>ActivityName = ''acme-widgets-pr-42-2'', SpecBuild = ''2''\<rparr>,
             \<lparr>ActivityName = ''acme-widgets-pr-42-1'', SpecBuild = ''1''\<rparr>,
             \<lparr>ActivityName = ''acme-widgets-pr-42-3'', SpecBuild = ''3''\<rparr>]),
      ConvertPipelineActivity = (\<lambda>a.
        Inr (exampleActivity\<lparr>Name := ActivityName a, BuildIdentifier := SpecBuild a\<rparr>)),
      Now = 1600000200,
      strings_Title = (\<lambda>s. s),
      strings_TrimSpace = (\<lambda>s. s),
      strings_Fields = (\<lambda>s. [s]),
      getUserFriendlyMapping = (\<lambda>s. s),
      containsIgnoreCase = (\<lambda>xs x. x \<in> set xs)\<rparr>"

definition noStatuses :: Statuses where
  "noStatuses =
     \<lparr>Merged = None, Closed = None, Aborted = None, Errored = None, Failed = None,
      Approved = None, NotApproved = None, NeedsOkToTest = None, Hold = None, Pending = None,
      Running = None, Succeeded = None, LGTM = None, Unknown = None\<rparr>"

definition exampleRule :: SlackBotMode where
  "exampleRule =
     \<lparr>Orgs = [], IgnoreLabels = [], Channel = ''reviews'', DirectMessage = False,
      NotifyReviewers = False\<rparr>"

definition exampleBot :: SlackBotOptions where
  "exampleBot =
     \<lparr>Statuses = noStatuses, Pipelines = [exampleRule], PullRequests = [exampleRule],
      Timestamps = Map.empty, SinkCalls = []\<rparr>"


definition storedBot :: SlackBotOptions where
  "storedBot =
     exampleBot\<lparr>Timestamps :=
       [''#reviews'' \<mapsto> [''acme-widgets-pr-42-3'' \<mapsto>
          \<lparr>ChannelID = ''C024'', Timestamp = ''1600000000.000100''\<rparr>]]\<rparr>"

text \<open>The two messages of the scenario, as the bot renders them.\<close>

definition exampleReviewAttachment :: Attachment where
  "exampleReviewAttachment =
     \<lparr>CallbackID = ''preview:acme-widgets-pr-42-3'', Color = ''#3AA3E3'',
      AttachmentTitle = [],
      AttachmentText = '' Please review <https://github.com/acme/widgets/pull/42|Pull Request #42 (Fix the widget)> created on <https://github.com/acme/|acme>/<https://github.com/acme/widgets|widgets> by <@U123>'',
      Fallback = [], Actions = [],
      Fields = [\<lparr>Value = '':octagonal_sign: hold'', Short = True\<rparr>,
                \<lparr>Value = '':white_circle: build running'', Short = True\<rparr>],
      Ts = ''1600000050'', FooterIcon = [], MarkdownIn = []\<rparr>"

definition examplePipelineAttachment :: Attachment where
  "examplePipelineAttachment =
     \<lparr>CallbackID = ''pipelineactivity:acme-widgets-pr-42-3'', Color = ''#3AA3E3'',
      AttachmentTitle = ''Pull Request Pipeline <https://github.com/acme/|acme>/<https://github.com/acme/widgets|widgets><https://github.com/acme/widgets/pull/42|#42> (Build <https://ci/acme/widgets/3|#3>)'',
      AttachmentText = [],
      Fallback = ''Repo: https://github.com/acme/widgets, Build: https://ci/acme/widgets/3, Logs: gs://logs/acme/widgets/3.log'',
      Actions =
        [\<lparr>ActionType = ''button'', ActionText = ''Repository'',
          ActionURL = ''https://github.com/acme/widgets''\<rparr>,
         \<lparr>ActionType = ''button'', ActionText = ''Pipeline'',
          ActionURL = ''https://ci/acme/widgets/3''\<rparr>,
         \<lparr>ActionType = ''button'', ActionText = ''Build Logs'',
          ActionURL = ''https://storage.cloud.google.com/logs/acme/widgets/3.log''\<rparr>],
      Fields = [], Ts = ''1600000000'', FooterIcon = [], MarkdownIn = []\<rparr>"

text \<open>The activity while still running, with a first stage that has succeeded.\<close>

definition stagedActivity :: ActivityRecord where
  "stagedActivity =
     exampleActivity\<lparr>Stages := [Some (ActivityStageOrStep ''build'' SuccessState [])]\<rparr>"





text \<open>
  The pull request once merged, with a provider that returns it, and a bot whose policy
  overrides the status \<open>merged\<close>.
\<close>

definition mergedPullRequest :: GitPullRequest where
  "mergedPullRequest = examplePullRequest\<lparr>GitPullRequest.Merged := Some True\<rparr>"

definition mergedEnv :: env where
  "mergedEnv = exampleEnv\<lparr>GetPullRequest := \<lambda>provider prn. (Some mergedPullRequest, None)\<rparr>"

definition overrideBot :: SlackBotOptions where
  "overrideBot =
     exampleBot\<lparr>Statuses :=
       noStatuses\<lparr>Merged := Some (OverrideStatus \<lparr>Emoji = '':tada:'', Text = ''merged''\<rparr>)\<rparr>\<rparr>"

section \<open>The pull request number of a branch\<close>

lemma digitVal_range: "isDigit c \<Longrightarrow> 0 \<le> digitVal c \<and> digitVal c \<le> 9"
  by (auto simp: isDigit_def digitVal_def)

lemma foldl_digits_mono:
  "list_all isDigit ds \<Longrightarrow> 0 \<le> n \<Longrightarrow> n \<le> foldl (\<lambda>n c. n * 10 + digitVal c) n ds"
proof (induction ds arbitrary: n)
  case Nil
  then show ?case by simp
next
  case (Cons c cs)
  then have d: "0 \<le> digitVal c" using digitVal_range by simp
  with Cons.prems have "n \<le> n * 10 + digitVal c" by simp
  also have "\<dots> \<le> foldl (\<lambda>n c. n * 10 + digitVal c) (n * 10 + digitVal c) cs"
    using Cons.prems d by (intro Cons.IH) simp_all
  finally show ?case by simp
qed

lemma ParseUint_loop_digits:
  "list_all isDigit ds \<Longrightarrow> 0 \<le> n \<Longrightarrow> foldl (\<lambda>n c. n * 10 + digitVal c) n ds < 2 ^ 64 \<Longrightarrow>
   ParseUint_loop n ds = ScanValue (foldl (\<lambda>n c. n * 10 + digitVal c) n ds)"
proof (induction ds arbitrary: n)
  case Nil
  then show ?case by simp
next
  case (Cons c cs)
  from Cons.prems have d: "0 \<le> digitVal c" using digitVal_range by simp
  with Cons.prems have nn: "0 \<le> n * 10 + digitVal c" by simp
  have "n * 10 + digitVal c \<le> foldl (\<lambda>n c. n * 10 + digitVal c) (n * 10 + digitVal c) cs"
    using Cons.prems nn by (intro foldl_digits_mono) simp_all
  with Cons.prems have "n * 10 + digitVal c < 2 ^ 64" by simp
  with Cons nn show ?case by simp
qed

lemma ParseUint_loop_nondigit:
  "\<not> list_all isDigit ds \<Longrightarrow> ParseUint_loop n ds \<noteq> ScanValue v"
  by (induction ds arbitrary: n) auto

lemma isDigit_not_sign: "isDigit c \<Longrightarrow> c \<noteq> CHR ''+'' \<and> c \<noteq> CHR ''-''"
  by (auto simp: isDigit_def)

text \<open>A string of digits below \<open>2^63\<close> is read as its number, without an error.\<close>

lemma Atoi_digits:
  assumes "ds \<noteq> []" "list_all isDigit ds" "decimalValue ds < 2 ^ 63"
  shows "Atoi ds = (decimalValue ds, None)"
proof -
  from assms obtain c cs where ds: "ds = c # cs" by (cases ds) auto
  with assms have "isDigit c" by simp
  then have sign: "c \<noteq> CHR ''+''" "c \<noteq> CHR ''-''" using isDigit_not_sign by auto
  have "decimalValue ds < 2 ^ 64" using assms(3) by simp
  then have "ParseUint_loop 0 ds = ScanValue (decimalValue ds)"
    using ParseUint_loop_digits [OF assms(2), of 0] by (simp add: decimalValue_def)
  then show ?thesis using assms sign ds by (simp add: Atoi_def ParseUint_def)
qed

text \<open>Behind an optional sign, an empty string or a byte that is no digit gives an error.\<close>

lemma Atoi_nondigit:
  assumes "rest = [] \<or> \<not> list_all isDigit
             (if hd rest = CHR ''+'' \<or> hd rest = CHR ''-'' then tl rest else rest)"
  shows "snd (Atoi rest) \<noteq> None"
proof (cases "rest = []")
  case True
  then show ?thesis by (simp add: Atoi_def)
next
  case False
  define body where "body = (if hd rest = CHR ''+'' \<or> hd rest = CHR ''-'' then tl rest else rest)"
  with assms False have nd: "\<not> list_all isDigit body" by simp
  then have "body \<noteq> []" by auto
  then have "ParseUint body = ParseUint_loop 0 body" by (simp add: ParseUint_def)
  with nd have "\<And>v. ParseUint body \<noteq> ScanValue v"
    using ParseUint_loop_nondigit [of body 0] by simp
  then show ?thesis using False
    by (cases "ParseUint body") (auto simp: Atoi_def Let_def body_def [symmetric])
qed

lemma Split_no_sep: "sep \<notin> set s \<Longrightarrow> Split s sep = [s]"
  by (induction s) auto

lemma Split_at_sep: "sep \<notin> set s \<Longrightarrow> Split (s @ sep # t) sep = s # Split t sep"
  by (induction s) auto

text \<open>
  With no \<open>/\<close> in the owner, the repository and the branch, the branch name that
  \<open>createPipelineDetails\<close> finds is the branch of the activity, or \<open>master\<close> for none.
\<close>

lemma createPipelineDetails_BranchName:
  assumes "CHR ''/'' \<notin> set (Owner a)" "CHR ''/'' \<notin> set (Repo a)" "CHR ''/'' \<notin> set (Branch a)"
  shows "BranchName (createPipelineDetails a) = (if Branch a = [] then ''master'' else Branch a)"
  using assms by (simp add: createPipelineDetails_def Split_at_sep Split_no_sep Let_def)


text \<open>
  C7, as the code has it. Let \<open>b\<close> be the branch name that \<open>createPipelineDetails\<close> finds,
  in lower case. If \<open>b\<close> is \<open>pr-\<close> and then one digit or more, standing for a number below
  \<open>2^63\<close>, \<open>getPullRequestNumber\<close> returns that number and no error. If \<open>b\<close> does not
  start with \<open>pr-\<close>, it returns 0 and no error. If \<open>b\<close> starts with \<open>pr-\<close>, it returns what
  \<open>Atoi\<close> makes of the rest, and that is an error whenever the rest, behind an optional
  sign, is empty or has a byte that is no digit.
\<close>

theorem getPullRequestNumber_branch:
  assumes "b = ToLower (BranchName (createPipelineDetails activity))"
  shows "(b = ''pr-'' @ ds \<and> ds \<noteq> [] \<and> list_all isDigit ds \<and> decimalValue ds < 2 ^ 63
            \<longrightarrow> getPullRequestNumber activity = (decimalValue ds, None))
       \<and> (\<not> HasPrefix b ''pr-'' \<longrightarrow> getPullRequestNumber activity = (0, None))
       \<and> (HasPrefix b ''pr-'' \<longrightarrow> getPullRequestNumber activity = Atoi (TrimPrefix b ''pr-''))
       \<and> (HasPrefix b ''pr-'' \<and> rest = TrimPrefix b ''pr-''
            \<and> (rest = [] \<or> \<not> list_all isDigit
                  (if hd rest = CHR ''+'' \<or> hd rest = CHR ''-'' then tl rest else rest))
            \<longrightarrow> snd (getPullRequestNumber activity) \<noteq> None)"
proof -
  have prefixed: "HasPrefix b ''pr-'' \<Longrightarrow> getPullRequestNumber activity = Atoi (TrimPrefix b ''pr-'')"
    using assms by (simp add: getPullRequestNumber_def Let_def)
  have digits: "b = ''pr-'' @ ds \<Longrightarrow> ds \<noteq> [] \<Longrightarrow> list_all isDigit ds \<Longrightarrow> decimalValue ds < 2 ^ 63
                  \<Longrightarrow> getPullRequestNumber activity = (decimalValue ds, None)"
    using prefixed Atoi_digits [of ds] by (simp add: HasPrefix_def TrimPrefix_def)
  have other: "\<not> HasPrefix b ''pr-'' \<Longrightarrow> getPullRequestNumber activity = (0, None)"
    using assms by (simp add: getPullRequestNumber_def Let_def)
  have malformed: "HasPrefix b ''pr-'' \<Longrightarrow> rest = TrimPrefix b ''pr-'' \<Longrightarrow>
        rest = [] \<or> \<not> list_all isDigit
           (if hd rest = CHR ''+'' \<or> hd rest = CHR ''-'' then tl rest else rest)
        \<Longrightarrow> snd (getPullRequestNumber activity) \<noteq> None"
    using prefixed Atoi_nondigit [of rest] by simp
  from prefixed digits other malformed show ?thesis by blast
qed

theorem getPullRequestNumber_branch_witness:
  "getPullRequestNumber exampleActivity = (42, None)
   \<and> getPullRequestNumber (exampleActivity\<lparr>Branch := ''master''\<rparr>) = (0, None)
   \<and> snd (getPullRequestNumber (exampleActivity\<lparr>Branch := ''pr-4x2''\<rparr>)) \<noteq> None"
proof -
  have pr: "ToLower (BranchName (createPipelineDetails exampleActivity)) = ''pr-'' @ ''42''"
    by (simp add: createPipelineDetails_def exampleActivity_def ToLower_def lowerByte_def Let_def)
  have digits: "''42'' \<noteq> [] \<and> list_all isDigit ''42'' \<and> decimalValue ''42'' = 42"
    by (simp add: isDigit_def decimalValue_def digitVal_def)
  from getPullRequestNumber_branch [OF pr [symmetric], where ds = "''42''"] pr digits
  have a: "getPullRequestNumber exampleActivity = (42, None)"
    by simp
  have master: "ToLower (BranchName (createPipelineDetails (exampleActivity\<lparr>Branch := ''master''\<rparr>)))
                  = ''master''"
    by (simp add: createPipelineDetails_def exampleActivity_def ToLower_def lowerByte_def Let_def)
  from getPullRequestNumber_branch [OF master [symmetric]]
  have b: "getPullRequestNumber (exampleActivity\<lparr>Branch := ''master''\<rparr>) = (0, None)"
    by (simp add: HasPrefix_def)
  have bad: "ToLower (BranchName (createPipelineDetails (exampleActivity\<lparr>Branch := ''pr-4x2''\<rparr>)))
               = ''pr-4x2''"
    by (simp add: createPipelineDetails_def exampleActivity_def ToLower_def lowerByte_def Let_def)
  from getPullRequestNumber_branch [OF bad [symmetric], where rest = "''4x2''",
      THEN conjunct2, THEN conjunct2, THEN conjunct2]
  have c: "snd (getPullRequestNumber (exampleActivity\<lparr>Branch := ''pr-4x2''\<rparr>)) \<noteq> None"
    by (simp add: HasPrefix_def TrimPrefix_def isDigit_def)
  from a b c show ?thesis by simp
qed

text \<open>
  Against C7 as the spec words it: \<open>pr-abc\<close> is not \<open>pr-\<close> and digits, and the result is
  an error, not 0 without one; \<open>pr-99999999999999999999\<close> is \<open>pr-\<close> and digits, and the
  result is an error too.
\<close>

theorem getPullRequestNumber_counterexample:
  "getPullRequestNumber (exampleActivity\<lparr>Branch := ''pr-abc''\<rparr>) = (0, Some (ErrSyntax ''abc''))
   \<and> getPullRequestNumber (exampleActivity\<lparr>Branch := ''pr-99999999999999999999''\<rparr>)
       = (9223372036854775807, Some (ErrRange ''99999999999999999999''))"
  by (simp add: getPullRequestNumber_def createPipelineDetails_def exampleActivity_def
        ToLower_def lowerByte_def Let_def HasPrefix_def TrimPrefix_def Atoi_def ParseUint_def
        isDigit_def digitVal_def)


section \<open>Create, update or skip\<close>

text \<open>
  C1, as the code has it. Take a call of \<open>postMessage\<close> on a store whose reference for
  the channel and the name of the activity, if there is one, has a timestamp that is not
  empty. For a channel message: with a reference, \<open>SendMessageContext\<close> is called once,
  on the stored channel id, with the update option for the stored timestamp, whatever
  \<open>createIfMissing\<close> is; with none and \<open>createIfMissing\<close>, it is called once on the
  channel, with no update option; with none and no \<open>createIfMissing\<close>, nothing is called
  and no error is returned. For a direct message the conversation is opened first: when
  that succeeds, the same holds behind that call, with the id of the opened conversation
  in the place of the channel and of the stored channel id; when it fails, nothing else
  is called and the error is returned.
\<close>

theorem postMessage_decision:
  assumes run: "postMessage e channel directMessage messageType activity all' attachments
                  createIfMissing o' = (err, o'')"
      and stamped: "case messageRefOf o' channel (Name activity) of
                      Some r \<Rightarrow> Timestamp r \<noteq> [] | None \<Rightarrow> True"
  shows "((if directMessage then OpenConversation e channel = Inr conversation else True) \<longrightarrow>
          (let opened = (if directMessage then [CallOpenConversation channel] else []);
               target = (\<lambda>c. if directMessage then conversation else c)
           in case messageRefOf o' channel (Name activity) of
                Some r \<Rightarrow>
                  SinkCalls o'' = SinkCalls o' @ opened @
                    [CallSendMessageContext (target (ChannelID r))
                       [MsgOptionAttachments attachments, MsgOptionUpdate (Timestamp r)]]
              | None \<Rightarrow>
                  if createIfMissing
                  then SinkCalls o'' = SinkCalls o' @ opened @
                         [CallSendMessageContext (target channel) [MsgOptionAttachments attachments]]
                  else SinkCalls o'' = SinkCalls o' @ opened \<and> err = None))
       \<and> (directMessage \<and> OpenConversation e channel = Inl failure \<longrightarrow>
            SinkCalls o'' = SinkCalls o' @ [CallOpenConversation channel] \<and> err \<noteq> None)"
  using run stamped
  by (auto simp: postMessage_def Let_def messageRefOf_def
           split: option.splits sum.splits prod.splits if_splits)

theorem postMessage_decision_witness:
  "SinkCalls (snd (postMessage exampleEnv ''#reviews'' False ''pr'' exampleActivity [] [] False
                     storedBot))
     = [CallSendMessageContext ''C024''
          [MsgOptionAttachments [], MsgOptionUpdate ''1600000000.000100'']]
   \<and> fst (postMessage exampleEnv ''U123'' True ''pr'' exampleActivity [] [] False exampleBot) = None"
proof -
  have stored: "messageRefOf storedBot ''#reviews'' (Name exampleActivity)
                  = Some \<lparr>ChannelID = ''C024'', Timestamp = ''1600000000.000100''\<rparr>"
    by (simp add: messageRefOf_def storedBot_def exampleBot_def exampleActivity_def)
  have absent: "messageRefOf exampleBot ''U123'' (Name exampleActivity) = None"
    by (simp add: messageRefOf_def exampleBot_def)
  have opens: "OpenConversation exampleEnv ''U123'' = Inr ''D-U123''"
    by (simp add: exampleEnv_def)
  have calls: "SinkCalls storedBot = []"
    by (simp add: storedBot_def exampleBot_def)
  from postMessage_decision [OF prod.collapse [symmetric],
      where e = exampleEnv and channel = "''#reviews''" and directMessage = False
        and messageType = "''pr''" and activity = exampleActivity and all' = "[]"
        and attachments = "[]" and createIfMissing = False and o' = storedBot]
    stored calls
  have a: "SinkCalls (snd (postMessage exampleEnv ''#reviews'' False ''pr'' exampleActivity [] []
                     False storedBot))
     = [CallSendMessageContext ''C024''
          [MsgOptionAttachments [], MsgOptionUpdate ''1600000000.000100'']]"
    by simp
  from postMessage_decision [OF prod.collapse [symmetric],
      where e = exampleEnv and channel = "''U123''" and directMessage = True
        and messageType = "''pr''" and activity = exampleActivity and all' = "[]"
        and attachments = "[]" and createIfMissing = False and o' = exampleBot
        and conversation = "''D-U123''"]
    absent opens
  have b: "fst (postMessage exampleEnv ''U123'' True ''pr'' exampleActivity [] [] False exampleBot) = None"
    by simp
  from a b show ?thesis by simp
qed

text \<open>
  Against C1 as the spec words it: a direct message with no reference and no
  \<open>createIfMissing\<close> does call the Slack client, to open the conversation, and when that
  call fails an error is returned.
\<close>

theorem postMessage_decision_counterexample:
  "messageRefOf exampleBot ''U123'' (Name exampleActivity) = None
   \<and> SinkCalls (snd (postMessage exampleEnv ''U123'' True ''pr'' exampleActivity [] [] False
                       exampleBot)) = [CallOpenConversation ''U123'']
   \<and> SinkCalls exampleBot = []
   \<and> fst (postMessage (exampleEnv\<lparr>OpenConversation := \<lambda>user. Inl (External ''user_not_found'')\<rparr>)
            ''U123'' True ''pr'' exampleActivity [] [] False exampleBot)
       = Some (Wrap (External ''user_not_found'') ''(open converation channelId: U123)'')"
  by (simp add: postMessage_def messageRefOf_def exampleBot_def exampleEnv_def Let_def)

section \<open>The store after a failure\<close>

text \<open>
  What is left of the store when \<open>postMessage\<close> returns an error: the store it found, but
  for an empty map where the channel had none.
\<close>

lemma postMessage_failure_store:
  assumes "postMessage e channel directMessage messageType activity all' attachments
             createIfMissing o' = (Some err, o'')"
  shows "Timestamps o'' =
           (case Timestamps o' channel of
              None \<Rightarrow> (Timestamps o')(channel \<mapsto> Map.empty)
            | Some refs \<Rightarrow> Timestamps o')"
  using assms
  by (auto simp: postMessage_def Let_def messageRefOf_def
           split: option.splits sum.splits prod.splits if_splits)

text \<open>
  C6. When \<open>postMessage\<close> returns an error, the reference of every channel and name is
  what it was before the call. A reference differs after the call only when no error is
  returned, only for the channel and the name of the activity of the call, and then the
  last call on the Slack client is a \<open>SendMessageContext\<close> that returned no error, and
  the reference is the channel id and the timestamp it returned.
\<close>

theorem postMessage_failure_keeps_references:
  assumes run: "postMessage e channel directMessage messageType activity all' attachments
                  createIfMissing o' = (err, o'')"
  shows "(err \<noteq> None \<longrightarrow> messageRefOf o'' c n = messageRefOf o' c n)
       \<and> (messageRefOf o'' c n \<noteq> messageRefOf o' c n \<longrightarrow>
            err = None \<and> c = channel \<and> n = Name activity \<and> SinkCalls o'' \<noteq> [] \<and>
            (case last (SinkCalls o'') of
               CallOpenConversation u \<Rightarrow> False
             | CallSendMessageContext target options \<Rightarrow>
                 (case SendMessageContext e target options of
                    (channelId, timestamp, sendErr) \<Rightarrow>
                      sendErr = None \<and>
                      messageRefOf o'' c n = Some \<lparr>ChannelID = channelId, Timestamp = timestamp\<rparr>)))"
  using run
  by (auto simp: postMessage_def Let_def messageRefOf_def
           split: option.splits sum.splits prod.splits if_splits)

theorem postMessage_failure_keeps_references_witness:
  "fst (postMessage (exampleEnv\<lparr>SendMessageContext := \<lambda>channelId options.
           ([], [], Some (External ''channel_not_found''))\<rparr>)
         ''#reviews'' False ''pr'' exampleActivity [] [] True exampleBot) \<noteq> None
   \<and> messageRefOf (snd (postMessage (exampleEnv\<lparr>SendMessageContext := \<lambda>channelId options.
           ([], [], Some (External ''channel_not_found''))\<rparr>)
         ''#reviews'' False ''pr'' exampleActivity [] [] True exampleBot))
        ''#reviews'' (Name exampleActivity) = None
   \<and> messageRefOf (snd (postMessage exampleEnv ''#reviews'' False ''pr'' exampleActivity [] [] True
                          exampleBot)) ''#reviews'' (Name exampleActivity)
       = Some \<lparr>ChannelID = ''#reviews'', Timestamp = ''1600000100.000200''\<rparr>"
proof -
  let ?failing = "exampleEnv\<lparr>SendMessageContext := \<lambda>channelId options.
           ([], [], Some (External ''channel_not_found''))\<rparr>"
  have failed: "fst (postMessage ?failing ''#reviews'' False ''pr'' exampleActivity [] [] True
                       exampleBot) \<noteq> None"
    by (simp add: postMessage_def messageRefOf_def exampleBot_def exampleEnv_def Let_def)
  have absent: "messageRefOf exampleBot ''#reviews'' (Name exampleActivity) = None"
    by (simp add: messageRefOf_def exampleBot_def)
  from postMessage_failure_keeps_references [OF prod.collapse [symmetric],
      where e = ?failing and channel = "''#reviews''" and directMessage = False
        and messageType = "''pr''" and activity = exampleActivity and all' = "[]"
        and attachments = "[]" and createIfMissing = True and o' = exampleBot
        and c = "''#reviews''" and n = "Name exampleActivity"] failed absent
  have kept: "messageRefOf (snd (postMessage ?failing ''#reviews'' False ''pr'' exampleActivity
                [] [] True exampleBot)) ''#reviews'' (Name exampleActivity) = None"
    by simp
  have written: "messageRefOf (snd (postMessage exampleEnv ''#reviews'' False ''pr''
                   exampleActivity [] [] True exampleBot)) ''#reviews'' (Name exampleActivity)
       = Some \<lparr>ChannelID = ''#reviews'', Timestamp = ''1600000100.000200''\<rparr>"
    by (simp add: postMessage_def messageRefOf_def exampleBot_def exampleEnv_def Let_def)
  from failed kept written show ?thesis by simp
qed

section \<open>Review status and build status\<close>

lemma getStatus_statusFor:
  "getStatus (Merged sts) (Merged defaultStatuses) = Some (statusFor sts KindMerged)"
  "getStatus (Closed sts) (Closed defaultStatuses) = Some (statusFor sts KindClosed)"
  "getStatus (Aborted sts) (Aborted defaultStatuses) = Some (statusFor sts KindAborted)"
  "getStatus (Failed sts) (Failed defaultStatuses) = Some (statusFor sts KindFailed)"
  "getStatus (Approved sts) (Approved defaultStatuses) = Some (statusFor sts KindApproved)"
  "getStatus (NotApproved sts) (NotApproved defaultStatuses) = Some (statusFor sts KindNotApproved)"
  "getStatus (NeedsOkToTest sts) (NeedsOkToTest defaultStatuses) = Some (statusFor sts KindNeedsOkToTest)"
  "getStatus (Hold sts) (Hold defaultStatuses) = Some (statusFor sts KindHold)"
  "getStatus (Pending sts) (Pending defaultStatuses) = Some (statusFor sts KindPending)"
  "getStatus (Running sts) (Running defaultStatuses) = Some (statusFor sts KindRunning)"
  "getStatus (Succeeded sts) (Succeeded defaultStatuses) = Some (statusFor sts KindSucceeded)"
  "getStatus (LGTM sts) (LGTM defaultStatuses) = Some (statusFor sts KindLGTM)"
  "getStatus (Unknown sts) (Unknown defaultStatuses) = Some (statusFor sts KindUnknown)"
  by (auto simp: getStatus_def statusFor_def defaultStatuses_def split: option.splits)

lemma containsOneOf_named:
  "list_all (\<lambda>l. l \<noteq> None) labels \<Longrightarrow>
   containsOneOf labels [x] = Return (x \<in> labelNames labels)"
  by (induction labels) (auto simp: labelNames_def List.map_filter_simps)

lemma reviewKind_cases:
  "reviewKind lgtmRepo names =
     (if ''needs-ok-to-test'' \<in> names then KindNeedsOkToTest
      else if ''do-not-merge/hold'' \<in> names then KindHold
      else if lgtmRepo \<and> ''lgtm'' \<in> names then KindLGTM
      else if \<not> lgtmRepo \<and> ''approved'' \<in> names then KindApproved
      else KindNotApproved)"
  by (simp add: reviewKind_def lastMatching_def reviewStatusRules_def)

lemma reviewStatusOf_named:
  assumes "list_all (\<lambda>l. l \<noteq> None) labels"
  shows "reviewStatusOf sts lgtmRepo labels
           = Return (Some (statusFor sts (reviewKind lgtmRepo (labelNames labels))))"
  using assms
  by (simp add: reviewStatusOf_def containsOneOf_named getStatus_statusFor reviewKind_cases Let_def)

lemma buildStatusOf_kind:
  "buildStatusOf sts pr activity
     = Some (statusFor sts (buildKind (GitPullRequest.Merged pr = Some True) (IsClosed pr) (Status activity)))"
  by (cases "GitPullRequest.Merged pr"; cases "Status activity")
     (simp_all add: buildStatusOf_def buildKind_def getStatus_statusFor Let_def)

lemma statusField_shown: "statusField (Some (statusFor sts kind)) = Return (shown sts kind)"
  by (simp add: statusField_def shown_def)

text \<open>What a message that \<open>createReviewersMessage\<close> returns is made of.\<close>

lemma createReviewersMessage_result:
  assumes "createReviewersMessage e o' activity notifyReviewers (Some pr) resolver
             = Return (Some attachments, reviewers, buildStatus, None)"
  shows "\<exists>attachment status lgtmRepo reviewStatus reviewField buildField.
           attachments = [attachment] \<and> reviewers = []
           \<and> pipelineStatus activity = Return status
           \<and> Color attachment = attachmentColor status
           \<and> isLgtmRepo e activity = (lgtmRepo, None)
           \<and> reviewStatusOf (Statuses o') lgtmRepo (Labels pr) = Return reviewStatus
           \<and> buildStatus = buildStatusOf (Statuses o') pr activity
           \<and> statusField reviewStatus = Return reviewField
           \<and> statusField buildStatus = Return buildField
           \<and> Fields attachment = [reviewField, buildField]"
  using assms
  by (auto simp: createReviewersMessage_def Let_def
           split: outcome.splits prod.splits option.splits if_splits)

lemma createPipelineDetails_example:
  "createPipelineDetails exampleActivity =
     \<lparr>GitOwner = ''acme'', GitRepository = ''widgets'', BranchName = ''PR-42'',
      Pipeline = ''acme/widgets/PR-42'', Build = ''3'', DetailsContext = ''pr-build''\<rparr>"
  by (simp add: createPipelineDetails_def exampleActivity_def Let_def)

lemma createReviewersMessage_example:
  "createReviewersMessage exampleEnv exampleBot exampleActivity False (Some examplePullRequest) None
     = Return (Some [exampleReviewAttachment], [], Some (DefaultStatus KindRunning), None)"
  by code_simp

text \<open>
  C3, as the code has it. Take a pull request whose labels all have a name. Its review
  status is the status, under the policy, of the kind that the last matching rule gives,
  in the order not-approved, lgtm or approved, hold, needs-ok-to-test: it depends on the
  set of the labels only. With both \<open>approved\<close> and \<open>do-not-merge/hold\<close> and without
  \<open>needs-ok-to-test\<close> the kind is Hold; with \<open>needs-ok-to-test\<close> it is NeedsOkToTest,
  whatever the other labels. The first field of a message that \<open>createReviewersMessage\<close>
  returns shows this status.
\<close>

theorem reviewStatus_precedence:
  assumes named: "list_all (\<lambda>l. l \<noteq> None) (Labels pr)"
  shows "reviewStatusOf (Statuses o') lgtmRepo (Labels pr)
           = Return (Some (statusFor (Statuses o') (reviewKind lgtmRepo (labelNames (Labels pr)))))
       \<and> (''approved'' \<in> labelNames (Labels pr) \<and> ''do-not-merge/hold'' \<in> labelNames (Labels pr)
            \<and> ''needs-ok-to-test'' \<notin> labelNames (Labels pr)
            \<longrightarrow> reviewKind lgtmRepo (labelNames (Labels pr)) = KindHold)
       \<and> (''needs-ok-to-test'' \<in> labelNames (Labels pr)
            \<longrightarrow> reviewKind lgtmRepo (labelNames (Labels pr)) = KindNeedsOkToTest)
       \<and> (createReviewersMessage e o' activity notifyReviewers (Some pr) resolver
              = Return (Some attachments, reviewers, buildStatus, None)
            \<longrightarrow> (\<exists>attachment lgtm.
                   attachments = [attachment] \<and> isLgtmRepo e activity = (lgtm, None)
                   \<and> Fields attachment ! 0
                       = shown (Statuses o') (reviewKind lgtm (labelNames (Labels pr)))))"
proof -
  have status: "\<And>lgtm. reviewStatusOf (Statuses o') lgtm (Labels pr)
           = Return (Some (statusFor (Statuses o') (reviewKind lgtm (labelNames (Labels pr)))))"
    using named by (rule reviewStatusOf_named)
  have message: "\<exists>attachment lgtm.
                   attachments = [attachment] \<and> isLgtmRepo e activity = (lgtm, None)
                   \<and> Fields attachment ! 0
                       = shown (Statuses o') (reviewKind lgtm (labelNames (Labels pr)))"
    if "createReviewersMessage e o' activity notifyReviewers (Some pr) resolver
              = Return (Some attachments, reviewers, buildStatus, None)"
  proof -
    from createReviewersMessage_result [OF that]
    obtain attachment lgtm reviewStatus reviewField buildField where
      parts: "attachments = [attachment]" "isLgtmRepo e activity = (lgtm, None)"
        "reviewStatusOf (Statuses o') lgtm (Labels pr) = Return reviewStatus"
        "statusField reviewStatus = Return reviewField"
        "Fields attachment = [reviewField, buildField]"
      by blast
    from parts(3) status have "reviewStatus
        = Some (statusFor (Statuses o') (reviewKind lgtm (labelNames (Labels pr))))"
      by simp
    with parts(4) have "reviewField = shown (Statuses o') (reviewKind lgtm (labelNames (Labels pr)))"
      by (simp add: statusField_shown)
    with parts show ?thesis by simp
  qed
  from status message show ?thesis by (simp add: reviewKind_cases)
qed

theorem reviewStatus_precedence_witness:
  "reviewStatusOf (Statuses exampleBot) False [Some ''approved'', Some ''do-not-merge/hold'']
     = Return (Some (DefaultStatus KindHold))
   \<and> reviewStatusOf (Statuses exampleBot) False [Some ''do-not-merge/hold'', Some ''approved'']
     = Return (Some (DefaultStatus KindHold))
   \<and> (\<exists>attachment. createReviewersMessage exampleEnv exampleBot exampleActivity False
                       (Some examplePullRequest) None
                     = Return (Some [attachment], [], Some (DefaultStatus KindRunning), None)
                   \<and> Value (Fields attachment ! 0) = '':octagonal_sign: hold'')"
proof -
  let ?swapped = "examplePullRequest\<lparr>Labels := [Some ''do-not-merge/hold'', Some ''approved'']\<rparr>"
  have labels: "Labels examplePullRequest = [Some ''approved'', Some ''do-not-merge/hold'']"
    by (simp add: examplePullRequest_def)
  have names: "labelNames [Some ''approved'', Some ''do-not-merge/hold'']
                 = {''approved'', ''do-not-merge/hold''}"
       "labelNames [Some ''do-not-merge/hold'', Some ''approved'']
                 = {''do-not-merge/hold'', ''approved''}"
    by (simp_all add: labelNames_def List.map_filter_simps)
  have hold: "statusFor (Statuses exampleBot) KindHold = DefaultStatus KindHold"
    by (simp add: statusFor_def exampleBot_def noStatuses_def)
  have a: "reviewStatusOf (Statuses exampleBot) False [Some ''approved'', Some ''do-not-merge/hold'']
     = Return (Some (DefaultStatus KindHold))"
    using reviewStatus_precedence [where pr = examplePullRequest and o' = exampleBot
        and lgtmRepo = False] labels names hold
    by simp
  have b: "reviewStatusOf (Statuses exampleBot) False [Some ''do-not-merge/hold'', Some ''approved'']
     = Return (Some (DefaultStatus KindHold))"
    using reviewStatus_precedence [where pr = ?swapped and o' = exampleBot
        and lgtmRepo = False] names hold
    by simp
  have lgtm: "isLgtmRepo exampleEnv exampleActivity = (False, None)"
    by (simp add: isLgtmRepo_def exampleEnv_def)
  have shown: "Value (shown (Statuses exampleBot) KindHold) = '':octagonal_sign: hold''"
    by (simp add: shown_def hold)
  have named: "list_all (\<lambda>l. l \<noteq> None) (Labels examplePullRequest)"
    by (simp add: labels)
  from reviewStatus_precedence [where pr = examplePullRequest and o' = exampleBot
        and e = exampleEnv and activity = exampleActivity and notifyReviewers = False
        and resolver = None and lgtmRepo = False, OF named, THEN conjunct2, THEN conjunct2,
        THEN conjunct2, rule_format, OF createReviewersMessage_example]
  obtain attachment lgtm' where
    found: "[exampleReviewAttachment] = [attachment]"
      "isLgtmRepo exampleEnv exampleActivity = (lgtm', None)"
      "Fields attachment ! 0
         = shown (Statuses exampleBot) (reviewKind lgtm' (labelNames (Labels examplePullRequest)))"
    by blast
  from found(2) lgtm have "lgtm' = False" by simp
  with found(1,3) have "Fields exampleReviewAttachment ! 0
         = shown (Statuses exampleBot) (reviewKind False (labelNames (Labels examplePullRequest)))"
    by simp
  also have "reviewKind False (labelNames (Labels examplePullRequest)) = KindHold"
    by (simp add: labels names reviewKind_cases)
  finally have c: "Value (Fields exampleReviewAttachment ! 0) = '':octagonal_sign: hold''"
    by (simp add: shown)
  from a b c createReviewersMessage_example show ?thesis by blast
qed

text \<open>
  Against C3 as the spec words it: a pull request with \<open>approved\<close>, \<open>do-not-merge/hold\<close>
  and \<open>needs-ok-to-test\<close> has both of these labels, in any order, and its review
  status is NeedsOkToTest, which is shown as another emoji and text than Hold.
\<close>

theorem reviewStatus_precedence_counterexample:
  "reviewStatusOf (Statuses exampleBot) False
     [Some ''approved'', Some ''do-not-merge/hold'', Some ''needs-ok-to-test'']
     = Return (Some (DefaultStatus KindNeedsOkToTest))
   \<and> reviewStatusOf (Statuses exampleBot) False
     [Some ''needs-ok-to-test'', Some ''do-not-merge/hold'', Some ''approved'']
     = Return (Some (DefaultStatus KindNeedsOkToTest))
   \<and> reviewFields (createReviewersMessage exampleEnv exampleBot exampleActivity False
        (Some (examplePullRequest\<lparr>Labels :=
           [Some ''approved'', Some ''do-not-merge/hold'', Some ''needs-ok-to-test'']\<rparr>)) None)
       = ['':wave: needs /ok-to-test'', '':white_circle: build running'']
   \<and> Value (shown (Statuses exampleBot) KindHold) = '':octagonal_sign: hold''"
  by code_simp

text \<open>
  C4. The build status that \<open>createReviewersMessage\<close> computes, returns and shows in the
  second field of its message is the status, under the policy, of this kind: Merged when
  the merged flag of the pull request is set; else Closed when the pull request is
  closed; else the kind of the state of the pipeline (pending, running, succeeded for
  success, failed for failure, aborted); else Unknown. So merged and closed come before
  any state of the pipeline.
\<close>

theorem buildStatus_resolution:
  "buildStatusOf (Statuses o') pr activity
     = Some (statusFor (Statuses o')
               (buildKind (GitPullRequest.Merged pr = Some True) (IsClosed pr) (Status activity)))
   \<and> buildKind True closed state = KindMerged
   \<and> buildKind False True state = KindClosed
   \<and> (createReviewersMessage e o' activity notifyReviewers (Some pr) resolver
          = Return (Some attachments, reviewers, buildStatus, None)
        \<longrightarrow> buildStatus = Some (statusFor (Statuses o')
               (buildKind (GitPullRequest.Merged pr = Some True) (IsClosed pr) (Status activity)))
          \<and> (\<exists>attachment.
                attachments = [attachment]
                \<and> Fields attachment ! 1
                    = shown (Statuses o')
                        (buildKind (GitPullRequest.Merged pr = Some True) (IsClosed pr)
                           (Status activity))))"
proof -
  let ?kind = "buildKind (GitPullRequest.Merged pr = Some True) (IsClosed pr) (Status activity)"
  have message: "buildStatus = Some (statusFor (Statuses o') ?kind)
          \<and> (\<exists>attachment. attachments = [attachment]
                \<and> Fields attachment ! 1 = shown (Statuses o') ?kind)"
    if "createReviewersMessage e o' activity notifyReviewers (Some pr) resolver
          = Return (Some attachments, reviewers, buildStatus, None)"
  proof -
    from createReviewersMessage_result [OF that]
    obtain attachment reviewField buildField where
      parts: "attachments = [attachment]"
        "buildStatus = buildStatusOf (Statuses o') pr activity"
        "statusField buildStatus = Return buildField"
        "Fields attachment = [reviewField, buildField]"
      by blast
    from parts(2) have status: "buildStatus = Some (statusFor (Statuses o') ?kind)"
      by (simp add: buildStatusOf_kind)
    with parts(3) have "buildField = shown (Statuses o') ?kind"
      by (simp add: statusField_shown)
    with parts status show ?thesis by simp
  qed
  from message show ?thesis
    by (simp add: buildStatusOf_kind buildKind_def)
qed

theorem buildStatus_resolution_witness:
  "buildStatusOf (Statuses exampleBot) (examplePullRequest\<lparr>GitPullRequest.Merged := Some True\<rparr>) exampleActivity
     = Some (DefaultStatus KindMerged)
   \<and> (\<exists>attachment. createReviewersMessage exampleEnv exampleBot exampleActivity False
                       (Some examplePullRequest) None
                     = Return (Some [attachment], [], Some (DefaultStatus KindRunning), None)
                   \<and> Value (Fields attachment ! 1) = '':white_circle: build running'')"
proof -
  have merged: "statusFor (Statuses exampleBot) KindMerged = DefaultStatus KindMerged"
    by (simp add: statusFor_def exampleBot_def noStatuses_def)
  have a: "buildStatusOf (Statuses exampleBot) (examplePullRequest\<lparr>GitPullRequest.Merged := Some True\<rparr>)
             exampleActivity = Some (DefaultStatus KindMerged)"
    using buildStatus_resolution [where pr = "examplePullRequest\<lparr>GitPullRequest.Merged := Some True\<rparr>"
        and o' = exampleBot and activity = exampleActivity and closed = False
        and state = RunningState] merged
    by (simp add: buildKind_def)
  have kind: "buildKind (GitPullRequest.Merged examplePullRequest = Some True)
                (IsClosed examplePullRequest) (Status exampleActivity) = KindRunning"
    by (simp add: buildKind_def examplePullRequest_def exampleActivity_def)
  have shown: "Value (shown (Statuses exampleBot) KindRunning) = '':white_circle: build running''"
    by (simp add: shown_def statusFor_def exampleBot_def noStatuses_def)
  from buildStatus_resolution [where pr = examplePullRequest and o' = exampleBot
        and e = exampleEnv and activity = exampleActivity and notifyReviewers = False
        and resolver = None and closed = False and state = RunningState,
        THEN conjunct2, THEN conjunct2, THEN conjunct2, rule_format,
        OF createReviewersMessage_example]
  obtain attachment where
    found: "[exampleReviewAttachment] = [attachment]"
      "Fields attachment ! 1
         = shown (Statuses exampleBot)
             (buildKind (GitPullRequest.Merged examplePullRequest = Some True)
                (IsClosed examplePullRequest) (Status exampleActivity))"
    by blast
  then have "Fields exampleReviewAttachment ! 1 = shown (Statuses exampleBot) KindRunning"
    by (simp add: kind)
  then have b: "Value (Fields exampleReviewAttachment ! 1) = '':white_circle: build running''"
    by (simp add: shown)
  from a b createReviewersMessage_example show ?thesis by blast
qed

section \<open>The time and the colour of a pipeline message\<close>

lemma stageAttachments_prefix:
  "stageAttachments e o' activity stages attachments = Return result \<Longrightarrow>
   \<exists>rest. result = attachments @ rest"
proof (induction stages arbitrary: attachments)
  case Nil
  then show ?case by simp
next
  case (Cons step stages)
  then show ?case
    by (fastforce split: outcome.splits if_splits)
qed

lemma getLastUpdatedTime_activity:
  "getLastUpdatedTime None (Some activity) = latestTime [StartTime activity, CompletionTime activity]"
  by (auto simp: getLastUpdatedTime_def latestTime_def List.map_filter_simps Let_def
           split: option.splits)

lemma createPipelineMessage_result:
  assumes "createPipelineMessage e o' activity pr = Return (attachments, createIfMissing, None)"
  shows "\<exists>status attachment rest.
           pipelineStatus activity = Return status
           \<and> attachments = attachment # rest
           \<and> Color attachment = attachmentColor status
           \<and> Ts attachment =
               (if getLastUpdatedTime None (Some activity) > 0
                then FormatInt (getLastUpdatedTime None (Some activity)) else [])
           \<and> createIfMissing = (\<not> getLastUpdatedTime None (Some activity) < Now e - 24 * 3600)"
proof (cases "pipelineStatus activity")
  case Panic
  with assms show ?thesis by (simp add: createPipelineMessage_def)
next
  case (Return status)
  from assms Return obtain first result where
    staged: "stageAttachments e o' activity (Stages activity) [first] = Return result"
    and first: "Color first = attachmentColor status"
      "Ts first = (if getLastUpdatedTime None (Some activity) > 0
                   then FormatInt (getLastUpdatedTime None (Some activity)) else [])"
    and result: "attachments = result"
      "createIfMissing = (\<not> getLastUpdatedTime None (Some activity) < Now e - 24 * 3600)"
    by (simp add: createPipelineMessage_def Let_def split_beta
          split: outcome.splits option.splits if_splits)
  from stageAttachments_prefix [OF staged] obtain rest where "result = first # rest"
    by auto
  with Return first result show ?thesis by simp
qed

lemma lastStageStatus_last:
  "lastStageStatus statusType stages = Return status \<Longrightarrow>
   (stages = [] \<longrightarrow> status = statusType)
   \<and> (stages \<noteq> [] \<longrightarrow> (\<exists>stage. last stages = Some stage \<and> status = StepStatus stage))"
  by (induction statusType stages rule: lastStageStatus.induct) (auto split: if_splits)

lemma createPipelineMessage_example:
  "createPipelineMessage exampleEnv exampleBot exampleActivity (Some examplePullRequest)
     = Return ([examplePipelineAttachment], True, None)"
  by code_simp

lemma createPipelineMessage_example_old:
  "createPipelineMessage (exampleEnv\<lparr>Now := 1700000000\<rparr>) exampleBot exampleActivity
       (Some examplePullRequest)
     = Return ([examplePipelineAttachment], False, None)"
  by code_simp

lemma createPipelineMessage_example_staged:
  "createPipelineMessage exampleEnv exampleBot stagedActivity (Some examplePullRequest)
     = Return ([examplePipelineAttachment\<lparr>Color := ''good''\<rparr>,
                \<lparr>CallbackID = [], Color = ''good'', AttachmentTitle = [],
                 AttachmentText = '':white_check_mark: build'', Fallback = [], Actions = [],
                 Fields = [], Ts = [], FooterIcon = [], MarkdownIn = [''fields'']\<rparr>],
               True, None)"
  by code_simp

lemma postMessage_not_creatable:
  assumes "messageRefOf o' channel (Name activity) = None"
  shows "fst (postMessage e channel False messageType activity all' attachments False o') = None
       \<and> SinkCalls (snd (postMessage e channel False messageType activity all' attachments False o'))
           = SinkCalls o'
       \<and> messageRefOf (snd (postMessage e channel False messageType activity all' attachments
                               False o')) c n = messageRefOf o' c n"
  using assms
  by (auto simp: postMessage_def Let_def messageRefOf_def split: option.splits)

text \<open>
  C8, as the code has it. The timestamp of a pipeline message is the latest of the start
  time and the completion time of the activity, written when it is positive; the update
  time of the pull request is not read. \<open>createIfMissing\<close> is false exactly when that
  latest time (\<open>-1\<close> when no time is set) is before now minus 24 hours; a channel message
  posted with it then calls the Slack client only if a reference is stored.
\<close>

theorem pipelineMessage_time:
  assumes "createPipelineMessage e o' activity pr = Return (attachments, createIfMissing, None)"
  shows "attachments \<noteq> []
       \<and> Ts (hd attachments)
           = (if latestTime [StartTime activity, CompletionTime activity] > 0
              then FormatInt (latestTime [StartTime activity, CompletionTime activity]) else [])
       \<and> createIfMissing
           = (\<not> latestTime [StartTime activity, CompletionTime activity] < Now e - 24 * 3600)
       \<and> (latestTime [StartTime activity, CompletionTime activity] < Now e - 24 * 3600
            \<and> messageRefOf o' channel (Name activity) = None
            \<longrightarrow> SinkCalls (snd (postMessage e channel False messageType activity all' attachments
                                  createIfMissing o')) = SinkCalls o')"
proof -
  from createPipelineMessage_result [OF assms] obtain attachment rest where
    parts: "attachments = attachment # rest"
      "Ts attachment =
         (if getLastUpdatedTime None (Some activity) > 0
          then FormatInt (getLastUpdatedTime None (Some activity)) else [])"
      "createIfMissing = (\<not> getLastUpdatedTime None (Some activity) < Now e - 24 * 3600)"
    by blast
  then show ?thesis
    using postMessage_not_creatable [of o' channel activity e messageType all' attachments]
    by (simp add: getLastUpdatedTime_activity)
qed

theorem pipelineMessage_time_witness:
  "(\<exists>attachments. createPipelineMessage exampleEnv exampleBot exampleActivity
                     (Some examplePullRequest) = Return (attachments, True, None)
                   \<and> Ts (hd attachments) = ''1600000000'')
   \<and> (\<exists>attachments. createPipelineMessage (exampleEnv\<lparr>Now := 1700000000\<rparr>) exampleBot
                       exampleActivity (Some examplePullRequest)
                     = Return (attachments, False, None)
                   \<and> SinkCalls (snd (postMessage (exampleEnv\<lparr>Now := 1700000000\<rparr>) ''#builds''
                                       False ''pipeline'' exampleActivity [] attachments False
                                       exampleBot)) = [])"
proof -
  have latest: "latestTime [StartTime exampleActivity, CompletionTime exampleActivity] = 1600000000"
    by (simp add: latestTime_def exampleActivity_def List.map_filter_simps)
  have stamp: "FormatInt 1600000000 = ''1600000000''"
    by (simp add: FormatInt_def)
  from pipelineMessage_time [OF createPipelineMessage_example] latest stamp
  have a: "Ts (hd [examplePipelineAttachment]) = ''1600000000''"
    by simp
  have absent: "messageRefOf exampleBot ''#builds'' (Name exampleActivity) = None"
    by (simp add: messageRefOf_def exampleBot_def)
  have calls: "SinkCalls exampleBot = []"
    by (simp add: exampleBot_def)
  have now: "Now (exampleEnv\<lparr>Now := 1700000000\<rparr>) = 1700000000"
    by simp
  from pipelineMessage_time [OF createPipelineMessage_example_old,
      where channel = "''#builds''" and messageType = "''pipeline''" and all' = "[]"]
    latest absent calls now
  have b: "SinkCalls (snd (postMessage (exampleEnv\<lparr>Now := 1700000000\<rparr>) ''#builds''
                                       False ''pipeline'' exampleActivity []
                                       [examplePipelineAttachment] False exampleBot)) = []"
    by simp
  from a b createPipelineMessage_example createPipelineMessage_example_old
  show ?thesis by blast
qed

text \<open>
  Against C8 as the spec words it: the pull request of the scenario was updated 50 seconds
  after the activity started, so the latest of the three times is 1600000050, and the
  timestamp of the pipeline message is 1600000000.
\<close>

theorem pipelineMessage_time_counterexample:
  "getLastUpdatedTime (Some examplePullRequest) (Some exampleActivity) = 1600000050
   \<and> pipelineTs (createPipelineMessage exampleEnv exampleBot exampleActivity
                   (Some examplePullRequest)) = ''1600000000''"
  by code_simp

text \<open>
  C9, as the code has it. The colour of the first attachment of a pipeline message is
  the colour of the status of the activity when that is success or when the activity has
  no stages, and the colour of the status of its last stage when the activity has stages
  and its status is none of success, failure and aborted. The colours are danger for
  failure, good for success, \<open>#3AA3E3\<close> for running and pending, and none for any other.
\<close>

theorem pipelineMessage_color:
  assumes "createPipelineMessage e o' activity pr = Return (attachments, createIfMissing, None)"
  shows "attachments \<noteq> []
       \<and> (Status activity = SuccessState \<or> Stages activity = []
            \<longrightarrow> Color (hd attachments) = attachmentColor (Status activity))
       \<and> (Status activity \<noteq> SuccessState \<and> Status activity \<noteq> FailureState
            \<and> Status activity \<noteq> AbortedState \<and> Stages activity \<noteq> []
            \<longrightarrow> (\<exists>stage. last (Stages activity) = Some stage
                          \<and> Color (hd attachments) = attachmentColor (StepStatus stage)))
       \<and> attachmentColor FailureState = ''danger''
       \<and> attachmentColor SuccessState = ''good''
       \<and> attachmentColor RunningState = ''#3AA3E3''
       \<and> attachmentColor PendingState = ''#3AA3E3''
       \<and> attachmentColor TriggeredState = []
       \<and> attachmentColor AbortedState = []
       \<and> attachmentColor (OtherState other) = []"
proof -
  from createPipelineMessage_result [OF assms] obtain status attachment rest where
    parts: "pipelineStatus activity = Return status" "attachments = attachment # rest"
      "Color attachment = attachmentColor status"
    by blast
  have own: "status = Status activity" if "Status activity = SuccessState \<or> Stages activity = []"
    using that parts(1) by (auto simp: pipelineStatus_def Let_def split: PipelineState.splits)
  have staged: "\<exists>stage. last (Stages activity) = Some stage \<and> status = StepStatus stage"
    if "Status activity \<noteq> SuccessState" "Stages activity \<noteq> []"
  proof -
    from that(1) parts(1) have "lastStageStatus (Status activity) (Stages activity) = Return status"
      by (simp add: pipelineStatus_def Let_def split: PipelineState.splits)
    from lastStageStatus_last [OF this] that(2) show ?thesis by simp
  qed
  have colours: "attachmentColor FailureState = ''danger''" "attachmentColor SuccessState = ''good''"
      "attachmentColor RunningState = ''#3AA3E3''" "attachmentColor PendingState = ''#3AA3E3''"
      "attachmentColor TriggeredState = []" "attachmentColor AbortedState = []"
      "attachmentColor (OtherState other) = []"
    by (simp_all add: attachmentColor_def)
  from parts own have a: "Status activity = SuccessState \<or> Stages activity = []
            \<longrightarrow> Color (hd attachments) = attachmentColor (Status activity)"
    by auto
  from parts staged have b: "Status activity \<noteq> SuccessState \<and> Status activity \<noteq> FailureState
            \<and> Status activity \<noteq> AbortedState \<and> Stages activity \<noteq> []
            \<longrightarrow> (\<exists>stage. last (Stages activity) = Some stage
                          \<and> Color (hd attachments) = attachmentColor (StepStatus stage))"
    by auto
  from parts(2) a b colours show ?thesis by simp
qed

theorem pipelineMessage_color_witness:
  "(\<exists>attachments. createPipelineMessage exampleEnv exampleBot exampleActivity
                     (Some examplePullRequest) = Return (attachments, True, None)
                   \<and> Color (hd attachments) = ''#3AA3E3'')
   \<and> (\<exists>attachments. createPipelineMessage exampleEnv exampleBot stagedActivity
                     (Some examplePullRequest) = Return (attachments, True, None)
                   \<and> Color (hd attachments) = ''good'')"
proof -
  have plain: "Status exampleActivity = RunningState" "Stages exampleActivity = []"
    by (simp_all add: exampleActivity_def)
  from pipelineMessage_color [OF createPipelineMessage_example] plain
  have a: "Color (hd [examplePipelineAttachment]) = ''#3AA3E3''"
    by simp
  have staged: "Status stagedActivity = RunningState"
      "Stages stagedActivity = [Some (ActivityStageOrStep ''build'' SuccessState [])]"
    by (simp_all add: stagedActivity_def exampleActivity_def)
  from pipelineMessage_color [OF createPipelineMessage_example_staged, THEN conjunct2,
      THEN conjunct2, THEN conjunct1]
  obtain stage where
    last: "last (Stages stagedActivity) = Some stage"
      "Color (hd [examplePipelineAttachment\<lparr>Color := ''good''\<rparr>,
                \<lparr>CallbackID = [], Color = ''good'', AttachmentTitle = [],
                 AttachmentText = '':white_check_mark: build'', Fallback = [], Actions = [],
                 Fields = [], Ts = [], FooterIcon = [], MarkdownIn = [''fields'']\<rparr>])
         = attachmentColor (StepStatus stage)"
    by (auto simp: staged)
  from last(1) have "StepStatus stage = SuccessState"
    by (auto simp: staged)
  with last(2) have b: "Color (hd [examplePipelineAttachment\<lparr>Color := ''good''\<rparr>,
                \<lparr>CallbackID = [], Color = ''good'', AttachmentTitle = [],
                 AttachmentText = '':white_check_mark: build'', Fallback = [], Actions = [],
                 Fields = [], Ts = [], FooterIcon = [], MarkdownIn = [''fields'']\<rparr>]) = ''good''"
    by (simp add: attachmentColor_def)
  from a b createPipelineMessage_example createPipelineMessage_example_staged
  show ?thesis by blast
qed

text \<open>
  Against C9 as the spec words it: the activity is running, its one stage has succeeded,
  and the colour is the one of success, not the one of running.
\<close>

theorem pipelineMessage_color_counterexample:
  "Status stagedActivity = RunningState
   \<and> attachmentColor RunningState = ''#3AA3E3''
   \<and> pipelineColor (createPipelineMessage exampleEnv exampleBot stagedActivity
                      (Some examplePullRequest)) = ''good''"
  by code_simp

section \<open>Stale builds\<close>















section \<open>Merged and closed pull requests\<close>

text \<open>
  The review flow posts to the channel with \<open>createIfMissing\<close> false exactly when the
  build status is one of the two pointers of the default table.
\<close>

lemma reviewRequest_posts:
  assumes created: "createReviewersMessage e o' activity (NotifyReviewers cfg) pullRequest resolver
                      = Return (Some attachments, reviewers, buildStatus, None)"
      and channel: "Channel cfg \<noteq> []"
  shows "snd (reviewRequest e activity cfg pullRequest resolver oldest all' o')
           = snd (postMessage e (channelName (Channel cfg)) False ''pr'' oldest all' attachments
                    (buildStatus \<noteq> Some (DefaultStatus KindMerged)
                     \<and> buildStatus \<noteq> Some (DefaultStatus KindClosed)) o')
       \<and> (fst (reviewRequest e activity cfg pullRequest resolver oldest all' o') = Return None)
           = (fst (postMessage e (channelName (Channel cfg)) False ''pr'' oldest all' attachments
                    (buildStatus \<noteq> Some (DefaultStatus KindMerged)
                     \<and> buildStatus \<noteq> Some (DefaultStatus KindClosed)) o') = None)"
proof -
  from created obtain pr where pr: "pullRequest = Some pr"
    by (cases pullRequest) (simp_all add: createReviewersMessage_def)
  from createReviewersMessage_result [OF created [unfolded pr]] have "reviewers = []"
    by blast
  with created channel show ?thesis
    by (auto simp: reviewRequest_def defaultStatuses_def Let_def split: prod.splits option.splits)
qed

text \<open>
  With no override of the statuses merged and closed, a merged or closed pull request
  with no stored reference makes no call on the Slack client.
\<close>

lemma reviewRequest_terminal_default:
  assumes created: "createReviewersMessage e o' activity (NotifyReviewers cfg) (Some pr) resolver
                      = Return (Some attachments, reviewers, buildStatus, None)"
      and terminal: "GitPullRequest.Merged pr = Some True \<or> IsClosed pr"
      and default: "Merged (Statuses o') = None" "Closed (Statuses o') = None"
      and channel: "Channel cfg \<noteq> []"
      and absent: "messageRefOf o' (channelName (Channel cfg)) (Name oldest) = None"
  shows "fst (reviewRequest e activity cfg (Some pr) resolver oldest all' o') = Return None
       \<and> SinkCalls (snd (reviewRequest e activity cfg (Some pr) resolver oldest all' o'))
           = SinkCalls o'"
proof -
  from createReviewersMessage_result [OF created]
  have "buildStatus = buildStatusOf (Statuses o') pr activity"
    by blast
  with terminal default have "buildStatus = Some (DefaultStatus KindMerged)
                              \<or> buildStatus = Some (DefaultStatus KindClosed)"
    by (auto simp: buildStatusOf_kind buildKind_def statusFor_def)
  then have flag: "(buildStatus \<noteq> Some (DefaultStatus KindMerged)
                     \<and> buildStatus \<noteq> Some (DefaultStatus KindClosed)) = False"
    by auto
  from reviewRequest_posts [OF created channel, of oldest all'] flag
    postMessage_not_creatable [OF absent, of e "''pr''" all' attachments]
  show ?thesis by simp
qed

text \<open>
  C5, where the code departs from it. The policy overrides the status \<open>merged\<close>, the pull
  request is merged and nothing is stored for the thread. The message shows the merged
  status of the policy, and \<open>ReviewRequestMessage\<close> creates it: one call, with no update
  option, and a reference stored after it. With the default policy the same call makes
  no call on the Slack client.
\<close>

theorem ReviewRequestMessage_override_creates:
  "messageRefOf overrideBot ''#reviews'' ''acme-widgets-pr-42-1'' = None
   \<and> reviewFields (createReviewersMessage mergedEnv overrideBot exampleActivity False
                     (Some mergedPullRequest) None)
       = ['':octagonal_sign: hold'', '':tada: merged'']
   \<and> fst (ReviewRequestMessage mergedEnv exampleActivity overrideBot) = Return None
   \<and> map isCreation (SinkCalls (snd (ReviewRequestMessage mergedEnv exampleActivity overrideBot)))
       = [True]
   \<and> messageRefOf (snd (ReviewRequestMessage mergedEnv exampleActivity overrideBot))
        ''#reviews'' ''acme-widgets-pr-42-1''
       = Some \<lparr>ChannelID = ''#reviews'', Timestamp = ''1600000100.000200''\<rparr>
   \<and> SinkCalls (snd (ReviewRequestMessage mergedEnv exampleActivity exampleBot)) = []"
  by code_simp

section \<open>\<open>isEnabled\<close> on an activity that is no pull request\<close>

text \<open>
  An activity with no positive pull request number has no pull request, and with one
  ignored label or more \<open>isEnabled\<close> stops at the labels of the pull request that is not
  there.
\<close>

lemma isEnabled_not_a_pull_request:
  assumes "fst (getPullRequestNumber activity) \<le> 0" "ignoreLabels \<noteq> []"
      and "orgs = [] \<or> orgFound orgs activity"
  shows "isEnabled e activity orgs ignoreLabels = Panic"
  using assms
  by (auto simp: isEnabled_def getPullRequest_def split: prod.splits)

text \<open>
  C10, where the code departs from it. For a build of \<open>master\<close>, \<open>getPullRequest\<close> returns
  no pull request and no error; with an ignored label \<open>isEnabled\<close> does not return, and
  neither does \<open>PipelineMessage\<close> for a rule with that label.
\<close>

theorem isEnabled_absent_pull_request:
  "getPullRequest exampleEnv (exampleActivity\<lparr>Branch := ''master''\<rparr>) = (None, None, None)
   \<and> isEnabled exampleEnv (exampleActivity\<lparr>Branch := ''master''\<rparr>) [] [''do-not-merge/hold'']
       = Panic
   \<and> fst (PipelineMessage exampleEnv (exampleActivity\<lparr>Branch := ''master''\<rparr>)
            (exampleBot\<lparr>Pipelines := [exampleRule\<lparr>IgnoreLabels := [''do-not-merge/hold'']\<rparr>]\<rparr>))
       = Panic"
  by code_simp

end
